theory Spec2Isabelle
  imports Main "HOL-Library.Sublist"
begin

chapter \<open>The model\<close>

section \<open>JavaScript values\<close>

text \<open>
  The program is one JavaScript module, \<^verbatim>\<open>src/index.js\<close>. Its values are modelled in two
  layers. \<open>json\<close> holds exactly what \<^verbatim>\<open>JSON.parse\<close> can return, which is what the config
  file can hold. \<open>jsval\<close> holds what a tool handler returns: JSON values, \<^verbatim>\<open>undefined\<close>,
  \<^verbatim>\<open>Date\<close> objects (by their time value in milliseconds, or invalid), arrays and objects
  of those. Numbers are integers: the fractional and non-finite numbers of JavaScript are
  outside this model. A string is the list of the bytes of its UTF-8 text. An object is
  an association list in property order, with distinct keys. A thrown \<^verbatim>\<open>Error\<close> is its
  message, the left summand of a result.
\<close>

datatype json = JNull | JBool bool | JNum int | JStr string | JArr "json list" | JObj "(string \<times> json) list"

datatype jsval = Undefined | Json json | DateVal int | InvalidDate | Array "jsval list"
  | Object "(string \<times> jsval) list"

abbreviation str :: "string \<Rightarrow> jsval" where "str s \<equiv> Json (JStr s)"
abbreviation num :: "int \<Rightarrow> jsval" where "num n \<equiv> Json (JNum n)"
abbreviation bool :: "bool \<Rightarrow> jsval" where "bool b \<equiv> Json (JBool b)"
abbreviation null :: jsval where "null \<equiv> Json JNull"

text \<open>Truthiness, as \<^verbatim>\<open>if (x)\<close>, \<^verbatim>\<open>!x\<close> and \<^verbatim>\<open>x || y\<close> test it; \<open>None\<close> is \<^verbatim>\<open>undefined\<close>.\<close>

fun truthy :: "json \<Rightarrow> bool" where
  "truthy JNull = False"
| "truthy (JBool b) = b"
| "truthy (JNum n) = (n \<noteq> 0)"
| "truthy (JStr s) = (s \<noteq> [])"
| "truthy (JArr xs) = True"
| "truthy (JObj kvs) = True"

fun truthy_opt :: "json option \<Rightarrow> bool" where
  "truthy_opt None = False"
| "truthy_opt (Some v) = truthy v"

definition of_opt :: "json option \<Rightarrow> jsval" where
  "of_opt v = (case v of None \<Rightarrow> Undefined | Some j \<Rightarrow> Json j)"

text \<open>\<^verbatim>\<open>s || d\<close> on an optional string, an optional number and an optional boolean.\<close>

definition str_or :: "string option \<Rightarrow> string \<Rightarrow> string" where
  "str_or s d = (case s of None \<Rightarrow> d | Some t \<Rightarrow> if t = [] then d else t)"

definition str_or_null :: "string option \<Rightarrow> string option" where
  "str_or_null s = (case s of None \<Rightarrow> None | Some t \<Rightarrow> if t = [] then None else Some t)"

definition num_or :: "int option \<Rightarrow> int \<Rightarrow> int" where
  "num_or n d = (case n of None \<Rightarrow> d | Some k \<Rightarrow> if k = 0 then d else k)"

definition bool_or_false :: "bool option \<Rightarrow> bool" where
  "bool_or_false b = (case b of None \<Rightarrow> False | Some c \<Rightarrow> c)"

text \<open>The string a template literal \<^verbatim>\<open>`${v}`\<close> makes of a value.\<close>

fun digits :: "nat \<Rightarrow> string" where
  "digits n = (if n < 10 then [char_of (48 + n)] else digits (n div 10) @ [char_of (48 + n mod 10)])"

declare digits.simps [simp del]

fun join :: "string list \<Rightarrow> string" where
  "join [] = []"
| "join [s] = s"
| "join (s # t # ss) = s @ '','' @ join (t # ss)"

fun display :: "json \<Rightarrow> string" where
  "display JNull = ''null''"
| "display (JBool b) = (if b then ''true'' else ''false'')"
| "display (JNum n) = (if n < 0 then ''-'' @ digits (nat (- n)) else digits (nat n))"
| "display (JStr s) = s"
| "display (JArr xs) = join (map (\<lambda>x. if x = JNull then [] else display x) xs)"
| "display (JObj kvs) = ''[object Object]''"

definition display_opt :: "json option \<Rightarrow> string" where
  "display_opt v = (case v of None \<Rightarrow> ''undefined'' | Some j \<Rightarrow> display j)"

definition type_name :: "json \<Rightarrow> string" where
  "type_name v = (case v of JBool _ \<Rightarrow> ''boolean'' | JNum _ \<Rightarrow> ''number'' | JStr _ \<Rightarrow> ''string'' | _ \<Rightarrow> ''object'')"

text \<open>
  \<^verbatim>\<open>new Date(t)\<close> for a time value \<open>t\<close>: a date when \<open>t\<close> is at most 8.64e15 milliseconds
  from the epoch, an invalid date otherwise.
\<close>

definition new_Date :: "int \<Rightarrow> jsval" where
  "new_Date t = (if \<bar>t\<bar> \<le> 8640000000000000 then DateVal t else InvalidDate)"

text \<open>
  The test \<^verbatim>\<open>/^\d{17,20}$/.test(s)\<close>: \<open>digit_run lo hi\<close> consumes digits up to the end of
  the string, at least \<open>lo\<close> and at most \<open>hi\<close> of them. No byte of a character outside
  ASCII is a digit.
\<close>

definition is_digit :: "char \<Rightarrow> bool" where
  "is_digit c = (c \<in> set ''0123456789'')"

fun digit_run :: "nat \<Rightarrow> nat \<Rightarrow> string \<Rightarrow> bool" where
  "digit_run lo hi [] = (lo = 0)"
| "digit_run lo hi (c # cs) = (is_digit c \<and> 0 < hi \<and> digit_run (lo - 1) (hi - 1) cs)"

definition id_pattern_test :: "string \<Rightarrow> bool" where
  "id_pattern_test s = digit_run 17 20 s"

section \<open>Config store\<close>

text \<open>
  The file at \<^verbatim>\<open>CONFIG_PATH\<close> is represented by what
  \<^verbatim>\<open>JSON.parse(readFileSync(CONFIG_PATH, "utf8"))\<close> does with it: there is no file, or
  reading and parsing throws, or parsing returns a value. \<^verbatim>\<open>JSON.stringify\<close> of a JSON
  value is text that parses back to that value.
\<close>

datatype cfile = Missing | Unparsable | Parses json

definition existsSync :: "cfile \<Rightarrow> bool" where
  "existsSync f = (f \<noteq> Missing)"

definition JSON_parse_readFileSync :: "cfile \<Rightarrow> string + json" where
  "JSON_parse_readFileSync f =
     (case f of
        Missing \<Rightarrow> Inl ''ENOENT: no such file or directory''
      | Unparsable \<Rightarrow> Inl ''Unexpected token in JSON''
      | Parses v \<Rightarrow> Inr v)"

text \<open>\<^verbatim>\<open>loadConfig()\<close>, lines 17 to 22, and \<^verbatim>\<open>saveConfig(config)\<close>, lines 24 to 26.\<close>

definition loadConfig :: "cfile \<Rightarrow> json" where
  "loadConfig f =
     (if existsSync f then
        (case JSON_parse_readFileSync f of Inr v \<Rightarrow> v | Inl e \<Rightarrow> JObj [])
      else JObj [])"

definition saveConfig :: "json \<Rightarrow> cfile \<Rightarrow> cfile" where
  "saveConfig config f = Parses config"

text \<open>
  Reading \<^verbatim>\<open>config.default_guild_id\<close>: a \<^verbatim>\<open>TypeError\<close> on \<^verbatim>\<open>null\<close>, the property of an
  object, \<^verbatim>\<open>undefined\<close> on anything else.
\<close>

definition default_guild_id :: "json \<Rightarrow> string + json option" where
  "default_guild_id config =
     (case config of
        JNull \<Rightarrow> Inl ''Cannot read properties of null (reading 'default_guild_id')''
      | JObj kvs \<Rightarrow> Inr (map_of kvs ''default_guild_id'')
      | _ \<Rightarrow> Inr None)"

fun set_field :: "string \<Rightarrow> json \<Rightarrow> (string \<times> json) list \<Rightarrow> (string \<times> json) list" where
  "set_field k v [] = [(k, v)]"
| "set_field k v (p # ps) = (if fst p = k then (k, v) # ps else p # set_field k v ps)"

text \<open>
  The assignment \<^verbatim>\<open>config.default_guild_id = v\<close>, as \<^verbatim>\<open>JSON.stringify(config)\<close> sees the
  result. On an object it replaces the property in place or appends it, and a property
  whose value is \<^verbatim>\<open>undefined\<close> is not written. On an array it sets a property that
  \<^verbatim>\<open>JSON.stringify\<close> does not write. On \<^verbatim>\<open>null\<close> and, in module (strict) code, on a
  primitive it throws a \<^verbatim>\<open>TypeError\<close>.
\<close>

definition assign_default_guild_id :: "json \<Rightarrow> json option \<Rightarrow> string + json" where
  "assign_default_guild_id config v =
     (case config of
        JObj kvs \<Rightarrow>
          (case v of
             Some j \<Rightarrow> Inr (JObj (set_field ''default_guild_id'' j kvs))
           | None \<Rightarrow> Inr (JObj (filter (\<lambda>p. fst p \<noteq> ''default_guild_id'') kvs)))
      | JArr xs \<Rightarrow> Inr (JArr xs)
      | JNull \<Rightarrow> Inl ''Cannot set properties of null (setting 'default_guild_id')''
      | _ \<Rightarrow> Inl (''Cannot create property 'default_guild_id' on '' @ type_name config @ '' ''
                 @ [CHR 0x27] @ display config @ [CHR 0x27]))"

section \<open>The platform client\<close>

text \<open>
  What the handlers read of the objects of the client library (discord.js).
\<close>

record guild =
  g_id :: string
  g_name :: string
  g_memberCount :: int

record channel =
  ch_id :: string
  ch_name :: string
  ch_isTextBased :: bool

record role =
  r_id :: string
  r_name :: string

record member =
  m_id :: string
  m_username :: string
  m_displayName :: string
  m_globalName :: "string option"

record message =
  msg_id :: string
  msg_author_username :: string
  msg_author_id :: string
  msg_member_displayName :: "string option"
  msg_content :: string
  msg_createdAt :: int
  msg_editedAt :: "int option"
  msg_attachments_size :: int
  msg_embeds_length :: int
  msg_reactions :: "(string \<times> int) list"
  msg_reference_messageId :: "string option"

datatype channel_type = GuildText | GuildVoice | GuildCategory

record channel_options =
  co_name :: string
  co_type :: channel_type
  co_parent :: "string option"
  co_topic :: "string option"
  co_userLimit :: "int option"

record role_options =
  ro_name :: string
  ro_color :: "string option"
  ro_hoist :: bool
  ro_mentionable :: bool

text \<open>
  The requests a handler sends to the platform, each with the identifiers of its receiver
  and its arguments. \<open>calls\<close> of the world below is the list of the requests sent so far,
  in the order in which the handlers called the library.
\<close>

datatype call =
    ChannelsCreate string channel_options
  | ChannelDelete string
  | ChannelsFetch string
  | FetchActiveThreads string
  | MessagesFetchMany string int "string option"
  | MessagesFetch string string
  | ChannelSend string string
  | MessageDelete string string
  | RolesCreate string role_options
  | RoleDelete string
  | MembersFetch string string
  | MembersFetchAll string
  | MembersBan string string string int
  | MemberTimeout string string int string

text \<open>
  The client library, the platform behind it and the engine the module runs on are a
  parameter of the model: a record of functions that give, from the requests sent so
  far, the content of each cache and the answer to the next request (\<open>Inl\<close> a rejection
  with its message). The state of the platform is thus the list of requests it has
  received, and since the functions are arbitrary, that an answer is given for the
  requests sent before its request fixes nothing about what the platform answers in a
  run. Caches are lists in insertion order, as \<^verbatim>\<open>Collection.find\<close> and
  \<^verbatim>\<open>Collection.map\<close> go through them. Three more fields are the engine's:
  \<^verbatim>\<open>String.prototype.toLowerCase\<close>; the readings of \<^verbatim>\<open>Date.now()\<close>, where
  \<open>date_now h n\<close> is reading number \<open>n\<close> of the stretch of code that runs once the
  requests \<open>h\<close> have been sent and answered; and, for a batch whose callbacks have sent
  the requests \<open>h\<close> and all wait, the order in which their answers arrive, as a list of
  the indices of the items (an item waiting twice is listed twice).
\<close>

record platform =
  guilds_cache :: "call list \<Rightarrow> guild list"
  channels_cache :: "call list \<Rightarrow> string \<Rightarrow> channel list"
  roles_cache :: "call list \<Rightarrow> string \<Rightarrow> role list"
  members_cache :: "call list \<Rightarrow> string \<Rightarrow> member list"
  channels_create :: "call list \<Rightarrow> string \<Rightarrow> channel_options \<Rightarrow> string + channel"
  channel_delete :: "call list \<Rightarrow> string \<Rightarrow> string + unit"
  channels_fetch :: "call list \<Rightarrow> string \<Rightarrow> string + channel option"
  fetchActiveThreads :: "call list \<Rightarrow> string \<Rightarrow> string + channel list"
  messages_fetch_many :: "call list \<Rightarrow> string \<Rightarrow> int \<Rightarrow> string option \<Rightarrow> string + message list"
  messages_fetch :: "call list \<Rightarrow> string \<Rightarrow> string \<Rightarrow> string + message"
  channel_send :: "call list \<Rightarrow> string \<Rightarrow> string \<Rightarrow> string + message"
  message_delete :: "call list \<Rightarrow> string \<Rightarrow> string \<Rightarrow> string + unit"
  roles_create :: "call list \<Rightarrow> string \<Rightarrow> role_options \<Rightarrow> string + role"
  role_delete :: "call list \<Rightarrow> string \<Rightarrow> string + unit"
  members_fetch :: "call list \<Rightarrow> string \<Rightarrow> string \<Rightarrow> string + member"
  members_fetch_all :: "call list \<Rightarrow> string \<Rightarrow> string + unit"
  members_ban :: "call list \<Rightarrow> string \<Rightarrow> string \<Rightarrow> string \<Rightarrow> int \<Rightarrow> string + unit"
  member_timeout :: "call list \<Rightarrow> string \<Rightarrow> string \<Rightarrow> int \<Rightarrow> string \<Rightarrow> string + unit"
  toLowerCase :: "string \<Rightarrow> string"
  date_now :: "call list \<Rightarrow> nat \<Rightarrow> int"
  arrival_order :: "call list \<Rightarrow> nat list"

text \<open>
  The state a call of a tool runs in: the config file, the outcome of the login promise
  \<^verbatim>\<open>discordReady\<close> (\<open>None\<close> when it resolved, the message when it rejected) and the
  requests sent so far.
\<close>

record world =
  config_file :: cfile
  discordReady :: "string option"
  calls :: "call list"

text \<open>
  A request that the handler sends and awaits with nothing else running: the answer is
  the platform's for the requests sent before it.
\<close>

definition perform :: "call \<Rightarrow> (call list \<Rightarrow> string + 'a) \<Rightarrow> world \<Rightarrow> (string + 'a) \<times> world" where
  "perform c answer w = (answer (calls w), w\<lparr>calls := calls w @ [c]\<rparr>)"

section \<open>Asynchronous functions\<close>

text \<open>
  An \<^verbatim>\<open>async\<close> function runs without interruption up to an \<^verbatim>\<open>await\<close>, and goes on from
  there in a later run, once what it awaits has settled. A \<open>task\<close> is what a call of such
  a function is after a run: settled with its result, or pending, with the requests sent
  in that run and what the call becomes in its next run, given the requests sent by then.
  The body of an asynchronous function is a function from the requests sent when it is
  run to the task it leaves.
\<close>

datatype 'a task = Settled "string + 'a" | Pending "call list" "call list \<Rightarrow> 'a task"

primrec sent :: "'a task \<Rightarrow> call list" where
  "sent (Settled r) = []"
| "sent (Pending cs k) = cs"

text \<open>
  \<open>request c answer k\<close>: send \<open>c\<close> and go on with \<open>k\<close> on the settled answer, which is the
  platform's for the requests sent before \<open>c\<close>. \<open>await c answer k\<close> is \<^verbatim>\<open>await\<close> of the
  request: a rejection is thrown, which ends the function.
\<close>

definition request :: "call \<Rightarrow> (call list \<Rightarrow> string + 'b) \<Rightarrow> (string + 'b \<Rightarrow> call list \<Rightarrow> 'a task)
    \<Rightarrow> call list \<Rightarrow> 'a task" where
  "request c answer k h = Pending [c] (k (answer h))"

definition or_throw :: "('b \<Rightarrow> call list \<Rightarrow> 'a task) \<Rightarrow> string + 'b \<Rightarrow> call list \<Rightarrow> 'a task" where
  "or_throw k r h = (case r of Inl e \<Rightarrow> Settled (Inl e) | Inr v \<Rightarrow> k v h)"

definition await :: "call \<Rightarrow> (call list \<Rightarrow> string + 'b) \<Rightarrow> ('b \<Rightarrow> call list \<Rightarrow> 'a task)
    \<Rightarrow> call list \<Rightarrow> 'a task" where
  "await c answer k = request c answer (or_throw k)"

text \<open>
  \<open>await_call t k\<close> is \<^verbatim>\<open>await f(...)\<close> for an asynchronous function \<^verbatim>\<open>f\<close> of the module
  whose call has left the task \<open>t\<close>. When \<open>t\<close> is settled already the caller still waits:
  it is pending, having sent nothing, and goes on in its next run. When \<open>t\<close> is pending the
  caller goes on in the run in which \<open>t\<close> settles.
\<close>

primrec bind :: "'a task \<Rightarrow> (string + 'a \<Rightarrow> call list \<Rightarrow> 'b task) \<Rightarrow> call list \<Rightarrow> 'b task" where
  "bind (Settled r) k h = k r h"
| "bind (Pending cs n) k h = Pending cs (\<lambda>h'. bind (n h') k h')"

definition await_call :: "'a task \<Rightarrow> ('a \<Rightarrow> call list \<Rightarrow> 'b task) \<Rightarrow> 'b task" where
  "await_call t k =
     (case t of
        Settled r \<Rightarrow> Pending [] (or_throw k r)
      | Pending cs n \<Rightarrow> Pending cs (\<lambda>h. bind (n h) (or_throw k) h))"

text \<open>
  A task run to its end with nothing else running: \<open>complete t h\<close> for a task \<open>t\<close> whose
  requests are the last of \<open>h\<close>; and a call of an asynchronous function awaited by a
  handler.
\<close>

primrec complete :: "'a task \<Rightarrow> call list \<Rightarrow> (string + 'a) \<times> call list" where
  "complete (Settled r) h = (r, h)"
| "complete (Pending cs k) h = complete (k h) (h @ sent (k h))"

definition alone :: "(call list \<Rightarrow> 'a task) \<Rightarrow> world \<Rightarrow> (string + 'a) \<times> world" where
  "alone f w =
     (case complete (f (calls w)) (calls w @ sent (f (calls w))) of (r, h) \<Rightarrow> (r, w\<lparr>calls := h\<rparr>))"

section \<open>Arguments of a tool call\<close>

text \<open>
  \<^verbatim>\<open>args\<close> is the object of the arguments of a call, with the property types that the
  \<^verbatim>\<open>inputSchema\<close> entries of \<^verbatim>\<open>tools\<close> declare. A property that some tool's schema leaves
  optional is an \<open>option\<close> (\<open>None\<close> when it is absent); a property that every schema using
  it requires has its plain type, and a tool whose schema does not have it does not read
  it.
\<close>

record channel_item =
  ci_name :: string
  ci_category_id :: "string option"
  ci_topic :: "string option"
  ci_user_limit :: "int option"

record message_item =
  mi_channel_id :: string
  mi_content :: string

record role_item =
  ri_name :: string
  ri_color :: "string option"
  ri_hoist :: "bool option"
  ri_mentionable :: "bool option"

record args =
  guild_id :: "string option"
  channels :: "channel_item list"
  names :: "string list"
  channel_ids :: "string list"
  channel_id :: string
  limit :: "int option"
  before_message_id :: "string option"
  messages :: "message_item list"
  message_ids :: "string list"
  roles :: "role_item list"
  role_ids :: "string list"
  user_ids :: "string list"
  user_id :: string
  duration_minutes :: int
  reason :: "string option"
  delete_message_days :: "int option"

section \<open>Resolvers\<close>

text \<open>\<^verbatim>\<open>resolveGuildId(args)\<close>, lines 61 to 66.\<close>

definition resolveGuildId :: "args \<Rightarrow> world \<Rightarrow> string + json" where
  "resolveGuildId a w =
     (let from_config =
        (let config = loadConfig (config_file w) in
         case default_guild_id config of
           Inl e \<Rightarrow> Inl e
         | Inr None \<Rightarrow> Inl ''No guild_id provided and no default guild set. Use set_guild first.''
         | Inr (Some d) \<Rightarrow>
             if truthy d then Inr d
             else Inl ''No guild_id provided and no default guild set. Use set_guild first.'')
      in case guild_id a of
           None \<Rightarrow> from_config
         | Some s \<Rightarrow> if truthy (JStr s) then Inr (JStr s) else from_config)"

text \<open>
  \<^verbatim>\<open>getGuild(guildId)\<close>, lines 68 to 72. \<^verbatim>\<open>discord.guilds.cache.get\<close> finds a guild only
  under a string key.
\<close>

definition cache_get :: "('a \<Rightarrow> string) \<Rightarrow> 'a list \<Rightarrow> string \<Rightarrow> 'a option" where
  "cache_get key xs k = find (\<lambda>x. key x = k) xs"

definition getGuild :: "platform \<Rightarrow> json option \<Rightarrow> world \<Rightarrow> string + guild" where
  "getGuild P guildId w =
     (case (case guildId of Some (JStr s) \<Rightarrow> cache_get g_id (guilds_cache P (calls w)) s | _ \<Rightarrow> None) of
        None \<Rightarrow> Inl (''Guild '' @ display_opt guildId @ '' not found or bot is not in this server'')
      | Some g \<Rightarrow> Inr g)"


text \<open>
  \<^verbatim>\<open>resolveMember(guild, userIdOrName)\<close>, lines 75 to 89. The cache is read in the run
  that follows the fetch of all members.
\<close>

definition member_matches :: "platform \<Rightarrow> string \<Rightarrow> member \<Rightarrow> bool" where
  "member_matches P lower m =
     (toLowerCase P (m_username m) = lower \<or>
      toLowerCase P (m_displayName m) = lower \<or>
      (case m_globalName m of None \<Rightarrow> False | Some gn \<Rightarrow> gn \<noteq> [] \<and> toLowerCase P gn = lower))"

definition resolveMember_async :: "platform \<Rightarrow> guild \<Rightarrow> string \<Rightarrow> call list \<Rightarrow> member task" where
  "resolveMember_async P guild userIdOrName =
     (if id_pattern_test userIdOrName then
        request (MembersFetch (g_id guild) userIdOrName)
          (\<lambda>h. members_fetch P h (g_id guild) userIdOrName) (\<lambda>r h. Settled r)
      else
        await (MembersFetchAll (g_id guild)) (\<lambda>h. members_fetch_all P h (g_id guild))
          (\<lambda>u h.
             let lower = toLowerCase P userIdOrName in
             case find (member_matches P lower) (members_cache P h (g_id guild)) of
               None \<Rightarrow> Settled (Inl (''User '' @ [CHR 0x22] @ userIdOrName @ [CHR 0x22]
                                     @ '' not found in this server''))
             | Some m \<Rightarrow> Settled (Inr m)))"

definition resolveMember :: "platform \<Rightarrow> guild \<Rightarrow> string \<Rightarrow> world \<Rightarrow> (string + member) \<times> world" where
  "resolveMember P guild userIdOrName = alone (resolveMember_async P guild userIdOrName)"

text \<open>\<^verbatim>\<open>resolveRole(guild, roleIdOrName)\<close>, lines 92 to 102; it sends no request.\<close>

definition resolveRole :: "platform \<Rightarrow> guild \<Rightarrow> string \<Rightarrow> world \<Rightarrow> string + role" where
  "resolveRole P guild roleIdOrName w =
     (if id_pattern_test roleIdOrName then
        (case cache_get r_id (roles_cache P (calls w) (g_id guild)) roleIdOrName of
           None \<Rightarrow> Inl (''Role '' @ roleIdOrName @ '' not found'')
         | Some r \<Rightarrow> Inr r)
      else
        (let lower = toLowerCase P roleIdOrName in
         case find (\<lambda>r. toLowerCase P (r_name r) = lower) (roles_cache P (calls w) (g_id guild)) of
           None \<Rightarrow> Inl (''Role '' @ [CHR 0x22] @ roleIdOrName @ [CHR 0x22] @ '' not found'')
         | Some r \<Rightarrow> Inr r))"

text \<open>
  \<^verbatim>\<open>resolveTextChannel(guild, channelId)\<close>, lines 105 to 117: the cache, then a fetch
  whose rejection is swallowed, then the active threads. \<open>h0\<close> is the list of the requests
  sent when the run that calls the function began: the cache is read as it is then,
  since no answer comes in during a run.
\<close>

definition resolveTextChannel_async :: "platform \<Rightarrow> guild \<Rightarrow> string \<Rightarrow> call list \<Rightarrow> call list \<Rightarrow> channel task" where
  "resolveTextChannel_async P guild channelId h0 =
     (let check = (\<lambda>c. if ch_isTextBased c then Settled (Inr c)
                         else Settled (Inl (''Channel '' @ channelId @ '' is not text-based''))) in
      case cache_get ch_id (channels_cache P h0 (g_id guild)) channelId of
        Some c \<Rightarrow> (\<lambda>h. check c)
      | None \<Rightarrow>
          request (ChannelsFetch channelId) (\<lambda>h. channels_fetch P h channelId)
            (\<lambda>r. case r of
                    Inr (Some c) \<Rightarrow> (\<lambda>h. check c)
                  | _ \<Rightarrow>
                      await (FetchActiveThreads (g_id guild)) (\<lambda>h. fetchActiveThreads P h (g_id guild))
                        (\<lambda>threads h.
                           case cache_get ch_id threads channelId of
                             None \<Rightarrow> Settled (Inl (''Channel/thread '' @ channelId @ '' not found''))
                           | Some c \<Rightarrow> check c)))"

definition resolveTextChannel :: "platform \<Rightarrow> guild \<Rightarrow> string \<Rightarrow> world \<Rightarrow> (string + channel) \<times> world" where
  "resolveTextChannel P guild channelId w =
     alone (resolveTextChannel_async P guild channelId (calls w)) w"

section \<open>Guild tools\<close>

text \<open>The first \<^verbatim>\<open>switch\<close> of \<^verbatim>\<open>handleTool\<close>, lines 402 to 425.\<close>

definition set_guild :: "platform \<Rightarrow> args \<Rightarrow> world \<Rightarrow> (string + jsval) \<times> world" where
  "set_guild P a w =
     (let arg = map_option JStr (guild_id a) in
      case getGuild P arg w of
        Inl e \<Rightarrow> (Inl e, w)
      | Inr guild \<Rightarrow>
          (let config = loadConfig (config_file w) in
           case assign_default_guild_id config arg of
             Inl e \<Rightarrow> (Inl e, w)
           | Inr config' \<Rightarrow>
               (Inr (Object [(''success'', bool True),
                             (''default_guild_id'', of_opt arg),
                             (''guild_name'', str (g_name guild))]),
                w\<lparr>config_file := saveConfig config' (config_file w)\<rparr>)))"

definition get_guild :: "platform \<Rightarrow> world \<Rightarrow> (string + jsval) \<times> world" where
  "get_guild P w =
     (let config = loadConfig (config_file w) in
      case default_guild_id config of
        Inl e \<Rightarrow> (Inl e, w)
      | Inr d \<Rightarrow>
          if \<not> truthy_opt d then
            (Inr (Object [(''default_guild_id'', null),
                          (''message'', str ''No default guild set. Use set_guild.'')]), w)
          else
            (case getGuild P d w of
               Inr guild \<Rightarrow>
                 (Inr (Object [(''default_guild_id'', of_opt d),
                               (''guild_name'', str (g_name guild)),
                               (''member_count'', num (g_memberCount guild))]), w)
             | Inl e \<Rightarrow>
                 (Inr (Object [(''default_guild_id'', of_opt d),
                               (''message'', str ''Saved but bot may no longer be in this server'')]), w)))"

definition list_guilds :: "platform \<Rightarrow> world \<Rightarrow> (string + jsval) \<times> world" where
  "list_guilds P w =
     (let config = loadConfig (config_file w) in
      case default_guild_id config of
        Inl e \<Rightarrow> (Inl e, w)
      | Inr d \<Rightarrow>
          (Inr (Object
             [(''guilds'', Array (map (\<lambda>g. Object [(''id'', str (g_id g)),
                                                    (''name'', str (g_name g)),
                                                    (''member_count'', num (g_memberCount g)),
                                                    (''is_default'', bool (d = Some (JStr (g_id g))))])
                                      (guilds_cache P (calls w)))),
              (''default_guild_id'', if truthy_opt d then of_opt d else null)]), w))"

section \<open>Batch tools\<close>

text \<open>
  \<^verbatim>\<open>Promise.allSettled(items.map(f))\<close>. \<^verbatim>\<open>map\<close> calls \<^verbatim>\<open>f\<close> on every item in the order of
  the items, each call running up to its first \<^verbatim>\<open>await\<close>: \<open>start_all\<close>. Then the calls that
  wait without having sent a request, which await a promise that is settled already, go
  on, in the order of the items and before any answer comes in: \<open>tick_all\<close>. Then the
  answers come in, in the order the platform gives, each starting the next run of its
  item: \<open>arrive\<close>. An answer the platform does not list comes in after the listed ones,
  item by item: \<open>finish\<close>. No call is cancelled, and the outcomes come back in the order of
  the items.
\<close>

datatype 'a settled = Fulfilled 'a | Rejected string

definition settle :: "string + 'a \<Rightarrow> 'a settled" where
  "settle r = (case r of Inl e \<Rightarrow> Rejected e | Inr v \<Rightarrow> Fulfilled v)"

fun start_all :: "(call list \<Rightarrow> 'a task) list \<Rightarrow> call list \<Rightarrow> 'a task list \<times> call list" where
  "start_all [] h = ([], h)"
| "start_all (f # fs) h =
     (case start_all fs (h @ sent (f h)) of (ts, h') \<Rightarrow> (f h # ts, h'))"

primrec resume :: "'a task \<Rightarrow> call list \<Rightarrow> 'a task \<times> call list" where
  "resume (Settled r) h = (Settled r, h)"
| "resume (Pending cs k) h = (k h, h @ sent (k h))"

primrec awaits_settled :: "'a task \<Rightarrow> bool" where
  "awaits_settled (Settled r) = False"
| "awaits_settled (Pending cs k) = (cs = [])"

fun tick_all :: "'a task list \<Rightarrow> call list \<Rightarrow> 'a task list \<times> call list" where
  "tick_all [] h = ([], h)"
| "tick_all (t # ts) h =
     (case (if awaits_settled t then resume t h else (t, h)) of (t', h1) \<Rightarrow>
        (case tick_all ts h1 of (ts', h2) \<Rightarrow> (t' # ts', h2)))"

fun arrive :: "nat list \<Rightarrow> 'a task list \<Rightarrow> call list \<Rightarrow> 'a task list \<times> call list" where
  "arrive [] ts h = (ts, h)"
| "arrive (i # is) ts h =
     (if i < length ts then
        (case resume (ts ! i) h of (t', h') \<Rightarrow> arrive is (ts[i := t']) h')
      else arrive is ts h)"

fun finish :: "'a task list \<Rightarrow> call list \<Rightarrow> (string + 'a) list \<times> call list" where
  "finish [] h = ([], h)"
| "finish (t # ts) h =
     (case complete t h of (r, h1) \<Rightarrow>
        (case finish ts h1 of (rs, h2) \<Rightarrow> (r # rs, h2)))"

definition allSettled :: "platform \<Rightarrow> (call list \<Rightarrow> 'a task) list \<Rightarrow> call list \<Rightarrow> 'a settled list \<times> call list" where
  "allSettled P fs h =
     (case start_all fs h of (ts, h1) \<Rightarrow>
        (case tick_all ts h1 of (ts1, h2) \<Rightarrow>
           (case arrive (arrival_order P h2) ts1 h2 of (ts2, h3) \<Rightarrow>
              (case finish ts2 h3 of (rs, h4) \<Rightarrow> (map settle rs, h4)))))"

text \<open>\<^verbatim>\<open>results.map((r, i) => ...)\<close>: the callback gets the element and its index.\<close>

definition mapi :: "('a \<Rightarrow> nat \<Rightarrow> 'b) \<Rightarrow> 'a list \<Rightarrow> 'b list" where
  "mapi f xs = map (\<lambda>i. f (xs ! i) i) [0..<length xs]"

definition failed :: "string \<Rightarrow> string \<Rightarrow> string \<Rightarrow> jsval" where
  "failed key k e = Object [(key, str k), (''status'', str ''failed''), (''error'', str e)]"

text \<open>
  A library call that sends one request and returns its promise, as the callbacks of
  \<^verbatim>\<open>mass_channels\<close>, \<^verbatim>\<open>mass_categories\<close>, \<^verbatim>\<open>mass_voice_channels\<close>, \<^verbatim>\<open>mass_create_role\<close> and
  \<^verbatim>\<open>mass_ban\<close> do.
\<close>

definition promise :: "call \<Rightarrow> (call list \<Rightarrow> string + 'a) \<Rightarrow> call list \<Rightarrow> 'a task" where
  "promise c answer = request c answer (\<lambda>r h. Settled r)"

text \<open>\<^verbatim>\<open>mass_channels\<close>, \<^verbatim>\<open>mass_categories\<close>, \<^verbatim>\<open>mass_voice_channels\<close>: lines 445 to 456.\<close>

definition text_options :: "channel_item \<Rightarrow> channel_options" where
  "text_options ch = \<lparr>co_name = ci_name ch, co_type = GuildText,
     co_parent = str_or_null (ci_category_id ch), co_topic = str_or_null (ci_topic ch),
     co_userLimit = None\<rparr>"

definition category_options :: "string \<Rightarrow> channel_options" where
  "category_options n = \<lparr>co_name = n, co_type = GuildCategory,
     co_parent = None, co_topic = None, co_userLimit = None\<rparr>"

definition voice_options :: "channel_item \<Rightarrow> channel_options" where
  "voice_options ch = \<lparr>co_name = ci_name ch, co_type = GuildVoice,
     co_parent = str_or_null (ci_category_id ch), co_topic = None,
     co_userLimit = Some (num_or (ci_user_limit ch) 0)\<rparr>"

definition create_channel_op :: "platform \<Rightarrow> guild \<Rightarrow> channel_options \<Rightarrow> call list \<Rightarrow> channel task" where
  "create_channel_op P guild opts =
     promise (ChannelsCreate (g_id guild) opts) (\<lambda>h. channels_create P h (g_id guild) opts)"

definition mass_channels_ops :: "platform \<Rightarrow> args \<Rightarrow> guild \<Rightarrow> (call list \<Rightarrow> channel task) list" where
  "mass_channels_ops P a guild = map (\<lambda>ch. create_channel_op P guild (text_options ch)) (channels a)"

definition mass_channels :: "platform \<Rightarrow> args \<Rightarrow> guild \<Rightarrow> world \<Rightarrow> (string + jsval) \<times> world" where
  "mass_channels P a guild w =
     (case allSettled P (mass_channels_ops P a guild) (calls w) of (results, h') \<Rightarrow>
        (Inr (Array (mapi (\<lambda>r i. case r of
            Fulfilled v \<Rightarrow> Object [(''name'', str (ci_name (channels a ! i))), (''id'', str (ch_id v)),
                                    (''status'', str ''created'')]
          | Rejected e \<Rightarrow> failed ''name'' (ci_name (channels a ! i)) e) results)),
         w\<lparr>calls := h'\<rparr>))"

definition mass_categories_ops :: "platform \<Rightarrow> args \<Rightarrow> guild \<Rightarrow> (call list \<Rightarrow> channel task) list" where
  "mass_categories_ops P a guild = map (\<lambda>n. create_channel_op P guild (category_options n)) (names a)"

definition mass_categories :: "platform \<Rightarrow> args \<Rightarrow> guild \<Rightarrow> world \<Rightarrow> (string + jsval) \<times> world" where
  "mass_categories P a guild w =
     (case allSettled P (mass_categories_ops P a guild) (calls w) of (results, h') \<Rightarrow>
        (Inr (Array (mapi (\<lambda>r i. case r of
            Fulfilled v \<Rightarrow> Object [(''name'', str (names a ! i)), (''id'', str (ch_id v)),
                                    (''status'', str ''created'')]
          | Rejected e \<Rightarrow> failed ''name'' (names a ! i) e) results)),
         w\<lparr>calls := h'\<rparr>))"

definition mass_voice_channels_ops :: "platform \<Rightarrow> args \<Rightarrow> guild \<Rightarrow> (call list \<Rightarrow> channel task) list" where
  "mass_voice_channels_ops P a guild = map (\<lambda>ch. create_channel_op P guild (voice_options ch)) (channels a)"

definition mass_voice_channels :: "platform \<Rightarrow> args \<Rightarrow> guild \<Rightarrow> world \<Rightarrow> (string + jsval) \<times> world" where
  "mass_voice_channels P a guild w =
     (case allSettled P (mass_voice_channels_ops P a guild) (calls w) of (results, h') \<Rightarrow>
        (Inr (Array (mapi (\<lambda>r i. case r of
            Fulfilled v \<Rightarrow> Object [(''name'', str (ci_name (channels a ! i))), (''id'', str (ch_id v)),
                                    (''status'', str ''created'')]
          | Rejected e \<Rightarrow> failed ''name'' (ci_name (channels a ! i)) e) results)),
         w\<lparr>calls := h'\<rparr>))"

text \<open>
  \<^verbatim>\<open>mass_delete\<close>, lines 464 to 467. Each callback looks its channel up in the cache
  before its first \<^verbatim>\<open>await\<close>, so all the lookups read the cache as it is when the
  callbacks are started, with the requests \<open>h0\<close> sent.
\<close>

definition mass_delete_ops :: "platform \<Rightarrow> args \<Rightarrow> guild \<Rightarrow> call list \<Rightarrow> (call list \<Rightarrow> (string \<times> string) task) list" where
  "mass_delete_ops P a guild h0 =
     map (\<lambda>id. case cache_get ch_id (channels_cache P h0 (g_id guild)) id of
                 None \<Rightarrow> (\<lambda>h. Settled (Inl (''Channel '' @ id @ '' not found'')))
               | Some ch \<Rightarrow>
                   await (ChannelDelete (ch_id ch)) (\<lambda>h. channel_delete P h (ch_id ch))
                     (\<lambda>u h. Settled (Inr (id, ch_name ch))))
         (channel_ids a)"

definition mass_delete :: "platform \<Rightarrow> args \<Rightarrow> guild \<Rightarrow> world \<Rightarrow> (string + jsval) \<times> world" where
  "mass_delete P a guild w =
     (case allSettled P (mass_delete_ops P a guild (calls w)) (calls w) of (results, h') \<Rightarrow>
        (Inr (Array (mapi (\<lambda>r i. case r of
            Fulfilled v \<Rightarrow> Object [(''id'', str (channel_ids a ! i)), (''name'', str (snd v)),
                                    (''status'', str ''deleted'')]
          | Rejected e \<Rightarrow> failed ''id'' (channel_ids a ! i) e) results)),
         w\<lparr>calls := h'\<rparr>))"

text \<open>
  \<^verbatim>\<open>mass_send_message\<close>, lines 511 to 518. Every callback calls \<^verbatim>\<open>resolveTextChannel\<close> in
  the run that starts the callbacks.
\<close>

definition mass_send_message_ops :: "platform \<Rightarrow> args \<Rightarrow> guild \<Rightarrow> call list \<Rightarrow> (call list \<Rightarrow> (string \<times> string) task) list" where
  "mass_send_message_ops P a guild h0 =
     map (\<lambda>m h. await_call (resolveTextChannel_async P guild (mi_channel_id m) h0 h)
                  (\<lambda>channel.
                     await (ChannelSend (ch_id channel) (mi_content m))
                       (\<lambda>h. channel_send P h (ch_id channel) (mi_content m))
                       (\<lambda>msg h. Settled (Inr (msg_id msg, mi_channel_id m)))))
         (messages a)"

definition mass_send_message :: "platform \<Rightarrow> args \<Rightarrow> guild \<Rightarrow> world \<Rightarrow> (string + jsval) \<times> world" where
  "mass_send_message P a guild w =
     (case allSettled P (mass_send_message_ops P a guild (calls w)) (calls w) of (results, h') \<Rightarrow>
        (Inr (Array (mapi (\<lambda>r i. case r of
            Fulfilled v \<Rightarrow> Object [(''channel_id'', str (mi_channel_id (messages a ! i))),
                                    (''message_id'', str (fst v)), (''status'', str ''sent'')]
          | Rejected e \<Rightarrow> failed ''channel_id'' (mi_channel_id (messages a ! i)) e) results)),
         w\<lparr>calls := h'\<rparr>))"

text \<open>\<^verbatim>\<open>mass_delete_message\<close>, lines 525 to 529: the channel is resolved once, before the batch.\<close>

definition mass_delete_message_ops :: "platform \<Rightarrow> args \<Rightarrow> channel \<Rightarrow> (call list \<Rightarrow> string task) list" where
  "mass_delete_message_ops P a channel =
     map (\<lambda>id. await (MessagesFetch (ch_id channel) id) (\<lambda>h. messages_fetch P h (ch_id channel) id)
                 (\<lambda>msg. await (MessageDelete (ch_id channel) (msg_id msg))
                          (\<lambda>h. message_delete P h (ch_id channel) (msg_id msg))
                          (\<lambda>u h. Settled (Inr id))))
         (message_ids a)"

definition mass_delete_message :: "platform \<Rightarrow> args \<Rightarrow> guild \<Rightarrow> world \<Rightarrow> (string + jsval) \<times> world" where
  "mass_delete_message P a guild w =
     (case resolveTextChannel P guild (channel_id a) w of
        (Inl e, w0) \<Rightarrow> (Inl e, w0)
      | (Inr channel, w0) \<Rightarrow>
          (case allSettled P (mass_delete_message_ops P a channel) (calls w0) of (results, h') \<Rightarrow>
             (Inr (Array (mapi (\<lambda>r i. case r of
                 Fulfilled v \<Rightarrow> Object [(''message_id'', str (message_ids a ! i)),
                                         (''status'', str ''deleted'')]
               | Rejected e \<Rightarrow> failed ''message_id'' (message_ids a ! i) e) results)),
              w0\<lparr>calls := h'\<rparr>)))"

text \<open>\<^verbatim>\<open>mass_create_role\<close> and \<^verbatim>\<open>mass_delete_role\<close>, lines 549 to 556.\<close>

definition role_options_of :: "role_item \<Rightarrow> role_options" where
  "role_options_of r = \<lparr>ro_name = ri_name r, ro_color = str_or_null (ri_color r),
     ro_hoist = bool_or_false (ri_hoist r), ro_mentionable = bool_or_false (ri_mentionable r)\<rparr>"

definition mass_create_role_ops :: "platform \<Rightarrow> args \<Rightarrow> guild \<Rightarrow> (call list \<Rightarrow> role task) list" where
  "mass_create_role_ops P a guild =
     map (\<lambda>r. promise (RolesCreate (g_id guild) (role_options_of r))
                 (\<lambda>h. roles_create P h (g_id guild) (role_options_of r)))
         (roles a)"

definition mass_create_role :: "platform \<Rightarrow> args \<Rightarrow> guild \<Rightarrow> world \<Rightarrow> (string + jsval) \<times> world" where
  "mass_create_role P a guild w =
     (case allSettled P (mass_create_role_ops P a guild) (calls w) of (results, h') \<Rightarrow>
        (Inr (Array (mapi (\<lambda>r i. case r of
            Fulfilled v \<Rightarrow> Object [(''name'', str (ri_name (roles a ! i))), (''id'', str (r_id v)),
                                    (''status'', str ''created'')]
          | Rejected e \<Rightarrow> failed ''name'' (ri_name (roles a ! i)) e) results)),
         w\<lparr>calls := h'\<rparr>))"

definition mass_delete_role_ops :: "platform \<Rightarrow> args \<Rightarrow> guild \<Rightarrow> call list \<Rightarrow> (call list \<Rightarrow> (string \<times> string) task) list" where
  "mass_delete_role_ops P a guild h0 =
     map (\<lambda>id. case cache_get r_id (roles_cache P h0 (g_id guild)) id of
                 None \<Rightarrow> (\<lambda>h. Settled (Inl (''Role '' @ id @ '' not found'')))
               | Some role \<Rightarrow>
                   await (RoleDelete (r_id role)) (\<lambda>h. role_delete P h (r_id role))
                     (\<lambda>u h. Settled (Inr (id, r_name role))))
         (role_ids a)"

definition mass_delete_role :: "platform \<Rightarrow> args \<Rightarrow> guild \<Rightarrow> world \<Rightarrow> (string + jsval) \<times> world" where
  "mass_delete_role P a guild w =
     (case allSettled P (mass_delete_role_ops P a guild (calls w)) (calls w) of (results, h') \<Rightarrow>
        (Inr (Array (mapi (\<lambda>r i. case r of
            Fulfilled v \<Rightarrow> Object [(''id'', str (role_ids a ! i)), (''name'', str (snd v)),
                                    (''status'', str ''deleted'')]
          | Rejected e \<Rightarrow> failed ''id'' (role_ids a ! i) e) results)),
         w\<lparr>calls := h'\<rparr>))"

text \<open>
  \<^verbatim>\<open>mass_ban\<close> and \<^verbatim>\<open>mass_time_out\<close>, lines 744 to 752. In \<^verbatim>\<open>mass_time_out\<close> the clock is
  read once for every fulfilled item, after all the items have settled.
\<close>

definition mass_ban_ops :: "platform \<Rightarrow> args \<Rightarrow> guild \<Rightarrow> (call list \<Rightarrow> unit task) list" where
  "mass_ban_ops P a guild =
     map (\<lambda>id. promise (MembersBan (g_id guild) id (str_or (reason a) ''Mass ban'')
                          (num_or (delete_message_days a) 0))
                  (\<lambda>h. members_ban P h (g_id guild) id (str_or (reason a) ''Mass ban'')
                          (num_or (delete_message_days a) 0)))
         (user_ids a)"

definition mass_ban :: "platform \<Rightarrow> args \<Rightarrow> guild \<Rightarrow> world \<Rightarrow> (string + jsval) \<times> world" where
  "mass_ban P a guild w =
     (case allSettled P (mass_ban_ops P a guild) (calls w) of (results, h') \<Rightarrow>
        (Inr (Array (mapi (\<lambda>r i. case r of
            Fulfilled v \<Rightarrow> Object [(''user_id'', str (user_ids a ! i)), (''status'', str ''banned'')]
          | Rejected e \<Rightarrow> failed ''user_id'' (user_ids a ! i) e) results)),
         w\<lparr>calls := h'\<rparr>))"

definition mass_time_out_ops :: "platform \<Rightarrow> args \<Rightarrow> guild \<Rightarrow> (call list \<Rightarrow> string task) list" where
  "mass_time_out_ops P a guild =
     (let ms = duration_minutes a * 60 * 1000 in
      map (\<lambda>id h. await_call (resolveMember_async P guild id h)
                    (\<lambda>m. await (MemberTimeout (g_id guild) (m_id m) ms (str_or (reason a) ''Mass timeout''))
                           (\<lambda>h. member_timeout P h (g_id guild) (m_id m) ms
                                  (str_or (reason a) ''Mass timeout''))
                           (\<lambda>u h. Settled (Inr (m_username m)))))
          (user_ids a))"

definition is_fulfilled :: "'a settled \<Rightarrow> bool" where
  "is_fulfilled r = (case r of Fulfilled v \<Rightarrow> True | Rejected e \<Rightarrow> False)"

definition mass_time_out :: "platform \<Rightarrow> args \<Rightarrow> guild \<Rightarrow> world \<Rightarrow> (string + jsval) \<times> world" where
  "mass_time_out P a guild w =
     (let ms = duration_minutes a * 60 * 1000 in
      case allSettled P (mass_time_out_ops P a guild) (calls w) of (results, h') \<Rightarrow>
        (Inr (Array (mapi (\<lambda>r i. case r of
            Fulfilled v \<Rightarrow> Object [(''user_id'', str (user_ids a ! i)), (''username'', str v),
                                    (''status'', str ''timed_out''),
                                    (''until'', new_Date (date_now P h'
                                       (length (filter is_fulfilled (take i results))) + ms))]
          | Rejected e \<Rightarrow> failed ''user_id'' (user_ids a ! i) e) results)),
         w\<lparr>calls := h'\<rparr>))"

section \<open>Single tools\<close>

text \<open>\<^verbatim>\<open>get_messages\<close>, lines 470 to 493.\<close>

definition message_view :: "message \<Rightarrow> jsval" where
  "message_view m = Object
     [(''id'', str (msg_id m)),
      (''author'', str (msg_author_username m)),
      (''author_id'', str (msg_author_id m)),
      (''display_name'', str (str_or (msg_member_displayName m) (msg_author_username m))),
      (''content'', str (msg_content m)),
      (''timestamp'', DateVal (msg_createdAt m)),
      (''edited'', bool (msg_editedAt m \<noteq> None)),
      (''attachments'', num (msg_attachments_size m)),
      (''embeds'', num (msg_embeds_length m)),
      (''reactions'', Array (map (\<lambda>(e, c). Object [(''emoji'', str e), (''count'', num c)])
                                (msg_reactions m))),
      (''reply_to'', (case str_or_null (msg_reference_messageId m) of
                        None \<Rightarrow> null | Some r \<Rightarrow> str r))]"

definition get_messages :: "platform \<Rightarrow> args \<Rightarrow> guild \<Rightarrow> world \<Rightarrow> (string + jsval) \<times> world" where
  "get_messages P a guild w =
     (case resolveTextChannel P guild (channel_id a) w of
        (Inl e, w1) \<Rightarrow> (Inl e, w1)
      | (Inr channel, w1) \<Rightarrow>
          (let limit' = min (num_or (limit a) 20) 100;
               before_id = str_or_null (before_message_id a) in
           case perform (MessagesFetchMany (ch_id channel) limit' before_id)
                  (\<lambda>h. messages_fetch_many P h (ch_id channel) limit' before_id) w1 of
             (Inl e, w2) \<Rightarrow> (Inl e, w2)
           | (Inr msgs, w2) \<Rightarrow>
               (Inr (Object [(''channel_id'', str (ch_id channel)),
                             (''channel_name'', str (ch_name channel)),
                             (''messages'', Array (map message_view (rev msgs)))]), w2)))"

text \<open>
  \<^verbatim>\<open>time_out_user\<close>, lines 738 to 743. The clock is read when the result is built, after
  the two awaited requests.
\<close>

definition timeout_op :: "platform \<Rightarrow> guild \<Rightarrow> member \<Rightarrow> int \<Rightarrow> string \<Rightarrow> world \<Rightarrow> (string + unit) \<times> world" where
  "timeout_op P guild m ms why =
     perform (MemberTimeout (g_id guild) (m_id m) ms why)
       (\<lambda>h. member_timeout P h (g_id guild) (m_id m) ms why)"

definition time_out_user :: "platform \<Rightarrow> args \<Rightarrow> guild \<Rightarrow> world \<Rightarrow> (string + jsval) \<times> world" where
  "time_out_user P a guild w =
     (case resolveMember P guild (user_id a) w of
        (Inl e, w1) \<Rightarrow> (Inl e, w1)
      | (Inr m, w1) \<Rightarrow>
          (let ms = duration_minutes a * 60 * 1000 in
           case timeout_op P guild m ms (str_or (reason a) ''No reason provided'') w1 of
             (Inl e, w2) \<Rightarrow> (Inl e, w2)
           | (Inr u, w2) \<Rightarrow>
               (Inr (Object [(''timed_out'', str (m_id m)),
                             (''username'', str (m_username m)),
                             (''duration_minutes'', num (duration_minutes a)),
                             (''until'', new_Date (date_now P (calls w2) 0 + ms)),
                             (''reason'', str (str_or (reason a) ''No reason provided''))]), w2)))"

section \<open>The dispatcher\<close>

text \<open>
  The names of the first \<^verbatim>\<open>switch\<close>, of the batch tools, and of the cases of the second
  \<^verbatim>\<open>switch\<close> that are not modelled case by case. For those the handler is a parameter,
  \<open>other_cases\<close>, which gives the result of the case and the requests it sends from the
  requests sent so far: those cases read the arguments, the guild and the caches, and
  none of them reads or writes the config file.
\<close>

definition guild_commands :: "string list" where
  "guild_commands = [''set_guild'', ''get_guild'', ''list_guilds'']"


definition other_tools :: "string list" where
  "other_tools = [''create_channel'', ''create_category'', ''create_voice_channel'', ''delete'',
     ''send_message'', ''reply_message'', ''edit_message'', ''delete_message'', ''add_reaction'',
     ''create_role'', ''delete_role'', ''assign_role'', ''remove_role'', ''server_analysis'',
     ''channel_analysis'', ''user_analysis'', ''create_thread'', ''send_thread_message'',
     ''thread_analysis'', ''list_threads'', ''archive_thread'', ''kick_user'', ''ban_user'',
     ''unban_user'']"

type_synonym handler = "string \<Rightarrow> args \<Rightarrow> guild \<Rightarrow> call list \<Rightarrow> (string + jsval) \<times> call list"

definition guild_switch :: "platform \<Rightarrow> handler \<Rightarrow> string \<Rightarrow> args \<Rightarrow> guild \<Rightarrow> world \<Rightarrow> (string + jsval) \<times> world" where
  "guild_switch P other_cases name a guild w =
     (if name = ''mass_channels'' then mass_channels P a guild w
      else if name = ''mass_categories'' then mass_categories P a guild w
      else if name = ''mass_voice_channels'' then mass_voice_channels P a guild w
      else if name = ''mass_delete'' then mass_delete P a guild w
      else if name = ''get_messages'' then get_messages P a guild w
      else if name = ''mass_send_message'' then mass_send_message P a guild w
      else if name = ''mass_delete_message'' then mass_delete_message P a guild w
      else if name = ''mass_create_role'' then mass_create_role P a guild w
      else if name = ''mass_delete_role'' then mass_delete_role P a guild w
      else if name = ''time_out_user'' then time_out_user P a guild w
      else if name = ''mass_ban'' then mass_ban P a guild w
      else if name = ''mass_time_out'' then mass_time_out P a guild w
      else if name \<in> set other_tools then
        (case other_cases name a guild (calls w) of (r, cs) \<Rightarrow> (r, w\<lparr>calls := calls w @ cs\<rparr>))
      else (Inl (''Unknown tool: '' @ name), w))"

text \<open>
  \<^verbatim>\<open>handleTool(name, args)\<close>, lines 397 to 757: wait for the login, the first
  \<^verbatim>\<open>switch\<close>, then \<^verbatim>\<open>resolveGuildId\<close> and \<^verbatim>\<open>getGuild\<close>, then the second \<^verbatim>\<open>switch\<close>.
\<close>

definition handleTool :: "platform \<Rightarrow> handler \<Rightarrow> string \<Rightarrow> args \<Rightarrow> world \<Rightarrow> (string + jsval) \<times> world" where
  "handleTool P other_cases name a w =
     (case discordReady w of
        Some e \<Rightarrow> (Inl e, w)
      | None \<Rightarrow>
          if name = ''set_guild'' then set_guild P a w
          else if name = ''get_guild'' then get_guild P w
          else if name = ''list_guilds'' then list_guilds P w
          else
            (case resolveGuildId a w of
               Inl e \<Rightarrow> (Inl e, w)
             | Inr guildId \<Rightarrow>
                 (case getGuild P (Some guildId) w of
                    Inl e \<Rightarrow> (Inl e, w)
                  | Inr guild \<Rightarrow> guild_switch P other_cases name a guild w)))"

text \<open>
  A sequence of calls, one after the other, each with its name and arguments: the world
  the last one leaves.
\<close>

definition run_calls :: "platform \<Rightarrow> handler \<Rightarrow> (string \<times> args) list \<Rightarrow> world \<Rightarrow> world" where
  "run_calls P other_cases cs w = fold (\<lambda>c w'. snd (handleTool P other_cases (fst c) (snd c) w')) cs w"

section \<open>Reading a result\<close>

text \<open>A property of a returned object.\<close>

definition field :: "string \<Rightarrow> jsval \<Rightarrow> jsval option" where
  "field k v = (case v of Object kvs \<Rightarrow> map_of kvs k | _ \<Rightarrow> None)"


section \<open>The identifier shape and the name match, in the specification's words\<close>

text \<open>
  Two predicates written from the words of the specification, to be compared with
  \<open>id_pattern_test\<close> and \<open>member_matches\<close> of the code: a token that consists of 17 to 20
  decimal digits and nothing else, and a member one of whose three names (account
  username, server display name, global display name) equals the token when case is
  ignored, that is, when both are taken to lower case.
\<close>

definition decimal_17_to_20 :: "string \<Rightarrow> bool" where
  "decimal_17_to_20 s = (17 \<le> length s \<and> length s \<le> 20 \<and> (\<forall>c \<in> set s. c \<in> set ''0123456789''))"

definition name_of_member_is :: "platform \<Rightarrow> string \<Rightarrow> member \<Rightarrow> bool" where
  "name_of_member_is P tok m =
     (toLowerCase P (m_username m) = toLowerCase P tok \<or>
      toLowerCase P (m_displayName m) = toLowerCase P tok \<or>
      (\<exists>gn. m_globalName m = Some gn \<and> gn \<noteq> [] \<and> toLowerCase P gn = toLowerCase P tok))"

section \<open>The outcome of a batch, in the specification's words\<close>














section \<open>An invariant of the tasks of a batch\<close>



section \<open>A sample platform\<close>

text \<open>
  One guild with three channels, two roles and two members. The platform refuses to
  create a channel named b and to ban or time out the member bob, does not know the message
  m9, and accepts every other request. Lower case is taken on the letters A to Z. The
  clock advances by 125 milliseconds with every request, and of two waiting items the
  second gets its answer first. The sample is what the properties below are run on.
\<close>

definition sample_guild :: guild where
  "sample_guild = \<lparr>g_id = ''123456789012345678'', g_name = ''Home'', g_memberCount = 2\<rparr>"

definition alice :: member where
  "alice = \<lparr>m_id = ''200000000000000001'', m_username = ''alice'', m_displayName = ''Ally'',
     m_globalName = Some ''Alice A''\<rparr>"

definition bob :: member where
  "bob = \<lparr>m_id = ''200000000000000002'', m_username = ''bob'', m_displayName = ''Bob'',
     m_globalName = None\<rparr>"

definition sample_message :: "string \<Rightarrow> message" where
  "sample_message i = \<lparr>msg_id = i, msg_author_username = ''alice'',
     msg_author_id = ''200000000000000001'', msg_member_displayName = Some ''Ally'',
     msg_content = ''hello'', msg_createdAt = 1700000000000, msg_editedAt = None,
     msg_attachments_size = 0, msg_embeds_length = 0, msg_reactions = [],
     msg_reference_messageId = None\<rparr>"

definition lower_char :: "char \<Rightarrow> char" where
  "lower_char c = (let n = (of_char c :: nat) in if 65 \<le> n \<and> n \<le> 90 then char_of (n + 32) else c)"

definition sample_platform :: platform where
  "sample_platform = \<lparr>
     guilds_cache = (\<lambda>h. [sample_guild]),
     channels_cache = (\<lambda>h g. [\<lparr>ch_id = ''c1'', ch_name = ''general'', ch_isTextBased = True\<rparr>,
                                \<lparr>ch_id = ''c2'', ch_name = ''voice'', ch_isTextBased = False\<rparr>,
                                \<lparr>ch_id = ''c3'', ch_name = ''news'', ch_isTextBased = True\<rparr>]),
     roles_cache = (\<lambda>h g. [\<lparr>r_id = ''300000000000000001'', r_name = ''Admin''\<rparr>,
                             \<lparr>r_id = ''300000000000000002'', r_name = ''Muted''\<rparr>]),
     members_cache = (\<lambda>h g. [alice, bob]),
     channels_create = (\<lambda>h g opts. if co_name opts = ''b'' then Inl ''Missing Permissions''
        else Inr \<lparr>ch_id = ''new-'' @ co_name opts, ch_name = co_name opts,
                  ch_isTextBased = (co_type opts = GuildText)\<rparr>),
     channel_delete = (\<lambda>h c. Inr ()),
     channels_fetch = (\<lambda>h c. Inl ''Unknown Channel''),
     fetchActiveThreads = (\<lambda>h g. Inr []),
     messages_fetch_many = (\<lambda>h c n b. Inr [sample_message ''m2'', sample_message ''m1'']),
     messages_fetch = (\<lambda>h c i. if i = ''m9'' then Inl ''Unknown Message'' else Inr (sample_message i)),
     channel_send = (\<lambda>h c t. Inr (sample_message ''m3'')),
     message_delete = (\<lambda>h c i. Inr ()),
     roles_create = (\<lambda>h g opts. Inr \<lparr>r_id = ''new-'' @ ro_name opts, r_name = ro_name opts\<rparr>),
     role_delete = (\<lambda>h r. Inr ()),
     members_fetch = (\<lambda>h g i. if i = m_id alice then Inr alice else if i = m_id bob then Inr bob
        else Inl ''Unknown Member''),
     members_fetch_all = (\<lambda>h g. Inr ()),
     members_ban = (\<lambda>h g i why days. if i = m_id bob then Inl ''Missing Permissions'' else Inr ()),
     member_timeout = (\<lambda>h g i ms why. if i = m_id bob then Inl ''Missing Permissions'' else Inr ()),
     toLowerCase = map lower_char,
     date_now = (\<lambda>h n. 1700000000000 + 125 * int (length h)),
     arrival_order = (\<lambda>h. [1, 0])\<rparr>"

definition sample_other_cases :: handler where
  "sample_other_cases name a guild h = (Inl ''not covered'', [])"

definition sample_args :: args where
  "sample_args = \<lparr>guild_id = None, channels = [], names = [], channel_ids = [], channel_id = ''c1'',
     limit = None, before_message_id = None, messages = [], message_ids = [], roles = [],
     role_ids = [], user_ids = [], user_id = ''alice'', duration_minutes = 10, reason = None,
     delete_message_days = None\<rparr>"

definition sample_channels :: "channel_item list" where
  "sample_channels =
     map (\<lambda>n. \<lparr>ci_name = n, ci_category_id = None, ci_topic = None, ci_user_limit = None\<rparr>)
         [''a'', ''b'', ''c'']"

definition sample_world :: "cfile \<Rightarrow> world" where
  "sample_world f = \<lparr>config_file = f, discordReady = None, calls = []\<rparr>"

chapter \<open>Properties\<close>

section \<open>Asynchronous functions awaited by a handler\<close>

text \<open>
  Run with nothing else running, the two asynchronous resolvers send each request once
  the answer to the one before is in.
\<close>

lemma resolveMember_direct:
  "resolveMember P guild userIdOrName w =
     (if id_pattern_test userIdOrName then
        perform (MembersFetch (g_id guild) userIdOrName)
          (\<lambda>h. members_fetch P h (g_id guild) userIdOrName) w
      else
        (case perform (MembersFetchAll (g_id guild)) (\<lambda>h. members_fetch_all P h (g_id guild)) w of
           (Inl e, w1) \<Rightarrow> (Inl e, w1)
         | (Inr u, w1) \<Rightarrow>
             (let lower = toLowerCase P userIdOrName in
              case find (member_matches P lower) (members_cache P (calls w1) (g_id guild)) of
                None \<Rightarrow> (Inl (''User '' @ [CHR 0x22] @ userIdOrName @ [CHR 0x22]
                              @ '' not found in this server''), w1)
              | Some m \<Rightarrow> (Inr m, w1))))"
  by (simp add: resolveMember_def alone_def resolveMember_async_def request_def await_def
        or_throw_def perform_def Let_def split: sum.splits option.splits)

lemma resolveTextChannel_direct:
  "resolveTextChannel P guild channelId w =
     (let check = (\<lambda>c w'. if ch_isTextBased c then (Inr c, w')
                           else (Inl (''Channel '' @ channelId @ '' is not text-based''), w')) in
      case cache_get ch_id (channels_cache P (calls w) (g_id guild)) channelId of
        Some c \<Rightarrow> check c w
      | None \<Rightarrow>
          (case perform (ChannelsFetch channelId) (\<lambda>h. channels_fetch P h channelId) w of
             (Inr (Some c), w1) \<Rightarrow> check c w1
           | (_, w1) \<Rightarrow>
               (case perform (FetchActiveThreads (g_id guild))
                       (\<lambda>h. fetchActiveThreads P h (g_id guild)) w1 of
                  (Inl e, w2) \<Rightarrow> (Inl e, w2)
                | (Inr threads, w2) \<Rightarrow>
                    (case cache_get ch_id threads channelId of
                       None \<Rightarrow> (Inl (''Channel/thread '' @ channelId @ '' not found''), w2)
                     | Some c \<Rightarrow> check c w2))))"
  by (simp add: resolveTextChannel_def alone_def resolveTextChannel_async_def request_def await_def
        or_throw_def perform_def Let_def split: sum.splits option.splits)

section \<open>The config store and the default guild\<close>

lemma loadConfig_cases:
  "loadConfig Missing = JObj []" "loadConfig Unparsable = JObj []" "loadConfig (Parses v) = v"
  by (simp_all add: loadConfig_def existsSync_def JSON_parse_readFileSync_def)

lemma map_of_set_field_same: "map_of (set_field k v kvs) k = Some v"
  by (induction kvs) auto

lemma map_of_set_field_other: "k' \<noteq> k \<Longrightarrow> map_of (set_field k v kvs) k' = map_of kvs k'"
  by (induction kvs) auto

lemma keys_set_field: "set (map fst (set_field k v kvs)) = insert k (set (map fst kvs))"
  by (induction kvs) auto

lemma getGuild_found:
  assumes "g \<in> set (guilds_cache P (calls w))"
  shows "\<exists>g'. getGuild P (Some (JStr (g_id g))) w = Inr g' \<and> g_id g' = g_id g"
proof -
  from assms obtain g' where f: "find (\<lambda>x. g_id x = g_id g) (guilds_cache P (calls w)) = Some g'"
    by (cases "find (\<lambda>x. g_id x = g_id g) (guilds_cache P (calls w))") (auto simp: find_None_iff)
  then have "g_id g' = g_id g" by (auto simp: find_Some_iff)
  with f show ?thesis by (simp add: getGuild_def cache_get_def)
qed

lemma getGuild_unknown:
  assumes "\<forall>g \<in> set (guilds_cache P (calls w)). v \<noteq> Some (JStr (g_id g))"
  shows "getGuild P v w = Inl (''Guild '' @ display_opt v @ '' not found or bot is not in this server'')"
proof -
  have "(case v of Some (JStr s) \<Rightarrow> cache_get g_id (guilds_cache P (calls w)) s | _ \<Rightarrow> None) = None"
    using assms by (auto simp: cache_get_def find_None_iff split: option.splits json.splits)
  then show ?thesis by (simp add: getGuild_def)
qed

lemma set_guild_known:
  assumes ready: "discordReady w = None"
      and found: "getGuild P (Some (JStr X)) w = Inr g'"
      and obj: "loadConfig (config_file w) = JObj kvs"
  shows "handleTool P oc ''set_guild'' (a\<lparr>guild_id := Some X\<rparr>) w =
           (Inr (Object [(''success'', bool True), (''default_guild_id'', str X),
                         (''guild_name'', str (g_name g'))]),
            w\<lparr>config_file := Parses (JObj (set_field ''default_guild_id'' (JStr X) kvs))\<rparr>)"
  using assms
  by (simp add: handleTool_def set_guild_def assign_default_guild_id_def saveConfig_def of_opt_def)

text \<open>
  \<^bold>\<open>C5.\<close> Loading the config never raises: \<open>loadConfig\<close> returns a config for every
  state of the file, the empty config when there is no file and the empty config whenever
  reading and parsing the file throws. Saving overwrites the file with the given config,
  whatever the file held before, so that loading gives back exactly the config saved.
\<close>

theorem config_store_load_and_save:
  "loadConfig Missing = JObj [] \<and>
   (\<forall>f e. JSON_parse_readFileSync f = Inl e \<longrightarrow> loadConfig f = JObj []) \<and>
   (\<forall>config f. saveConfig config f = Parses config \<and> loadConfig (saveConfig config f) = config)"
  by (auto simp: loadConfig_def existsSync_def JSON_parse_readFileSync_def saveConfig_def
           split: cfile.splits)

theorem config_store_load_and_save_witness:
  "JSON_parse_readFileSync Unparsable = Inl ''Unexpected token in JSON'' \<and>
   loadConfig Unparsable = JObj [] \<and>
   loadConfig Missing = JObj [] \<and>
   saveConfig (JObj [(''default_guild_id'', JStr ''1'')]) (Parses (JObj [(''theme'', JStr ''dark'')]))
     = Parses (JObj [(''default_guild_id'', JStr ''1'')])"
proof -
  have h: "JSON_parse_readFileSync Unparsable = Inl ''Unexpected token in JSON''"
    by (simp add: JSON_parse_readFileSync_def)
  from config_store_load_and_save h show ?thesis by blast
qed

text \<open>
  \<^bold>\<open>C6.\<close> The specification has the save of a \<^verbatim>\<open>set_guild\<close> call drop the fields of
  the config file other than \<^verbatim>\<open>default_guild_id\<close>. The code keeps them: \<^verbatim>\<open>set_guild\<close> loads
  the whole object, assigns \<^verbatim>\<open>default_guild_id\<close> and saves the whole object. On a file
  holding \<^verbatim>\<open>{"default_guild_id": "9", "theme": "dark"}\<close> the file written keeps \<^verbatim>\<open>theme\<close>.
\<close>

theorem set_guild_drops_extra_fields_counterexample:
  "config_file (snd (handleTool sample_platform sample_other_cases ''set_guild''
      (sample_args\<lparr>guild_id := Some ''123456789012345678''\<rparr>)
      (sample_world (Parses (JObj [(''default_guild_id'', JStr ''9''), (''theme'', JStr ''dark'')])))))
   = Parses (JObj [(''default_guild_id'', JStr ''123456789012345678''), (''theme'', JStr ''dark'')])
   \<and>
   config_file (snd (handleTool sample_platform sample_other_cases ''set_guild''
      (sample_args\<lparr>guild_id := Some ''123456789012345678''\<rparr>)
      (sample_world (Parses (JObj [(''default_guild_id'', JStr ''9''), (''theme'', JStr ''dark'')])))))
   \<noteq> Parses (JObj [(''default_guild_id'', JStr ''123456789012345678'')])"
  by (simp add: handleTool_def set_guild_def sample_world_def sample_args_def sample_platform_def
        getGuild_def cache_get_def sample_guild_def loadConfig_cases assign_default_guild_id_def
        saveConfig_def)

text \<open>
  \<^bold>\<open>C6, amended.\<close> When the config file holds a JSON object and the guild is one the
  client has in its cache, \<^verbatim>\<open>set_guild\<close> succeeds and writes an object in which
  \<^verbatim>\<open>default_guild_id\<close> is the given identifier and every other field of the file is kept
  with its value: the fields of the written object are those of the file and
  \<^verbatim>\<open>default_guild_id\<close>.
\<close>

theorem set_guild_keeps_other_fields:
  assumes "discordReady w = None"
      and "g \<in> set (guilds_cache P (calls w))"
      and "config_file w = Parses (JObj kvs)"
  shows "\<exists>r kvs'. handleTool P oc ''set_guild'' (a\<lparr>guild_id := Some (g_id g)\<rparr>) w =
            (Inr r, w\<lparr>config_file := Parses (JObj kvs')\<rparr>) \<and>
          map_of kvs' ''default_guild_id'' = Some (JStr (g_id g)) \<and>
          (\<forall>k. k \<noteq> ''default_guild_id'' \<longrightarrow> map_of kvs' k = map_of kvs k) \<and>
          set (map fst kvs') = insert ''default_guild_id'' (set (map fst kvs))"
proof -
  have l: "loadConfig (config_file w) = JObj kvs" using assms(3) by (simp add: loadConfig_cases)
  from getGuild_found [OF assms(2)] obtain g' where "getGuild P (Some (JStr (g_id g))) w = Inr g'"
    by blast
  from set_guild_known [OF assms(1) this l, of oc a] show ?thesis
    using map_of_set_field_same map_of_set_field_other keys_set_field by blast
qed

theorem set_guild_keeps_other_fields_witness:
  "discordReady (sample_world (Parses (JObj [(''theme'', JStr ''dark'')]))) = None \<and>
   sample_guild \<in> set (guilds_cache sample_platform
      (calls (sample_world (Parses (JObj [(''theme'', JStr ''dark'')]))))) \<and>
   config_file (sample_world (Parses (JObj [(''theme'', JStr ''dark'')])))
     = Parses (JObj [(''theme'', JStr ''dark'')]) \<and>
   (\<exists>r kvs'. handleTool sample_platform sample_other_cases ''set_guild''
        (sample_args\<lparr>guild_id := Some (g_id sample_guild)\<rparr>)
        (sample_world (Parses (JObj [(''theme'', JStr ''dark'')]))) =
          (Inr r, (sample_world (Parses (JObj [(''theme'', JStr ''dark'')])))
                    \<lparr>config_file := Parses (JObj kvs')\<rparr>) \<and>
      map_of kvs' ''default_guild_id'' = Some (JStr (g_id sample_guild)) \<and>
      map_of kvs' ''theme'' = Some (JStr ''dark''))"
proof -
  let ?w = "sample_world (Parses (JObj [(''theme'', JStr ''dark'')]))"
  have h1: "discordReady ?w = None" by (simp add: sample_world_def)
  have h2: "sample_guild \<in> set (guilds_cache sample_platform (calls ?w))"
    by (simp add: sample_world_def sample_platform_def)
  have h3: "config_file ?w = Parses (JObj [(''theme'', JStr ''dark'')])"
    by (simp add: sample_world_def)
  from set_guild_keeps_other_fields [OF h1 h2 h3, of sample_other_cases sample_args]
  obtain r kvs' where
    "handleTool sample_platform sample_other_cases ''set_guild''
        (sample_args\<lparr>guild_id := Some (g_id sample_guild)\<rparr>) ?w =
          (Inr r, ?w\<lparr>config_file := Parses (JObj kvs')\<rparr>)"
    "map_of kvs' ''default_guild_id'' = Some (JStr (g_id sample_guild))"
    "\<forall>k. k \<noteq> ''default_guild_id'' \<longrightarrow> map_of kvs' k = map_of [(''theme'', JStr ''dark'')] k"
    by blast
  moreover from this(3) have "map_of kvs' ''theme'' = Some (JStr ''dark'')" by simp
  ultimately show ?thesis using h1 h2 h3 by blast
qed

lemma get_guild_world: "snd (get_guild P w) = w"
  by (simp add: get_guild_def Let_def split: sum.splits)

lemma list_guilds_world: "snd (list_guilds P w) = w"
  by (simp add: list_guilds_def Let_def split: sum.splits)

lemma perform_frame:
  "config_file (snd (perform c answer w)) = config_file w \<and>
   discordReady (snd (perform c answer w)) = discordReady w"
  by (simp add: perform_def)

lemma alone_frame:
  "config_file (snd (alone f w)) = config_file w \<and> discordReady (snd (alone f w)) = discordReady w"
  by (simp add: alone_def split: prod.splits)

lemma get_messages_frame:
  "config_file (snd (get_messages P a guild w)) = config_file w \<and>
   discordReady (snd (get_messages P a guild w)) = discordReady w"
proof -
  obtain r w1 where r: "resolveTextChannel P guild (channel_id a) w = (r, w1)"
    by (cases "resolveTextChannel P guild (channel_id a) w")
  with alone_frame [of "resolveTextChannel_async P guild (channel_id a) (calls w)" w]
  have "config_file w1 = config_file w \<and> discordReady w1 = discordReady w"
    by (simp add: resolveTextChannel_def)
  with r show ?thesis
    by (simp add: get_messages_def perform_def Let_def split: sum.splits)
qed

lemma time_out_user_frame:
  "config_file (snd (time_out_user P a guild w)) = config_file w \<and>
   discordReady (snd (time_out_user P a guild w)) = discordReady w"
proof -
  obtain r w1 where r: "resolveMember P guild (user_id a) w = (r, w1)"
    by (cases "resolveMember P guild (user_id a) w")
  with alone_frame [of "resolveMember_async P guild (user_id a)" w]
  have "config_file w1 = config_file w \<and> discordReady w1 = discordReady w"
    by (simp add: resolveMember_def)
  with r show ?thesis
    by (simp add: time_out_user_def timeout_op_def perform_def Let_def split: sum.splits)
qed

lemma mass_delete_message_frame:
  "config_file (snd (mass_delete_message P a guild w)) = config_file w \<and>
   discordReady (snd (mass_delete_message P a guild w)) = discordReady w"
proof -
  obtain r w1 where r: "resolveTextChannel P guild (channel_id a) w = (r, w1)"
    by (cases "resolveTextChannel P guild (channel_id a) w")
  with alone_frame [of "resolveTextChannel_async P guild (channel_id a) (calls w)" w]
  have "config_file w1 = config_file w \<and> discordReady w1 = discordReady w"
    by (simp add: resolveTextChannel_def)
  with r show ?thesis
    by (simp add: mass_delete_message_def split: sum.splits prod.splits)
qed

lemma guild_switch_frame:
  "config_file (snd (guild_switch P oc name a guild w)) = config_file w \<and>
   discordReady (snd (guild_switch P oc name a guild w)) = discordReady w"
  by (simp add: guild_switch_def get_messages_frame time_out_user_frame mass_delete_message_frame
        mass_channels_def mass_categories_def mass_voice_channels_def mass_delete_def
        mass_send_message_def mass_create_role_def mass_delete_role_def mass_ban_def
        mass_time_out_def Let_def split: prod.splits)

lemma handleTool_frame:
  assumes "name \<noteq> ''set_guild''"
  shows "config_file (snd (handleTool P oc name a w)) = config_file w \<and>
         discordReady (snd (handleTool P oc name a w)) = discordReady w"
  using assms
  by (simp add: handleTool_def get_guild_world list_guilds_world guild_switch_frame
        split: option.splits sum.splits)

lemma run_calls_frame:
  assumes "''set_guild'' \<notin> fst ` set cs"
  shows "config_file (run_calls P oc cs w) = config_file w \<and>
         discordReady (run_calls P oc cs w) = discordReady w"
  using assms
proof (induction cs arbitrary: w)
  case Nil
  show ?case by (simp add: run_calls_def)
next
  case (Cons c cs)
  from Cons.prems have n: "fst c \<noteq> ''set_guild''" and r: "''set_guild'' \<notin> fst ` set cs" by auto
  have "run_calls P oc (c # cs) w = run_calls P oc cs (snd (handleTool P oc (fst c) (snd c) w))"
    by (simp add: run_calls_def)
  with Cons.IH [OF r] handleTool_frame [OF n] show ?case by simp
qed

text \<open>
  \<^bold>\<open>C3.\<close> The specification has \<^verbatim>\<open>get_guild\<close> return \<open>X\<close> after \<^verbatim>\<open>set_guild\<close> with \<open>X\<close>,
  for every guild \<open>X\<close> of the cache. It does not when the config file holds a JSON value
  that is not an object: on a file holding \<^verbatim>\<open>[1,2]\<close>, \<^verbatim>\<open>set_guild\<close> with the guild of the
  cache reports success and writes \<^verbatim>\<open>[1,2]\<close> back, and the \<^verbatim>\<open>get_guild\<close> that follows
  returns \<^verbatim>\<open>null\<close> as \<^verbatim>\<open>default_guild_id\<close>.
\<close>

theorem set_guild_then_get_guild_counterexample:
  "handleTool sample_platform sample_other_cases ''set_guild''
       (sample_args\<lparr>guild_id := Some ''123456789012345678''\<rparr>)
       (sample_world (Parses (JArr [JNum 1, JNum 2])))
     = (Inr (Object [(''success'', bool True), (''default_guild_id'', str ''123456789012345678''),
                     (''guild_name'', str ''Home'')]),
        sample_world (Parses (JArr [JNum 1, JNum 2]))) \<and>
   handleTool sample_platform sample_other_cases ''get_guild'' sample_args
       (sample_world (Parses (JArr [JNum 1, JNum 2])))
     = (Inr (Object [(''default_guild_id'', null),
                     (''message'', str ''No default guild set. Use set_guild.'')]),
        sample_world (Parses (JArr [JNum 1, JNum 2])))"
  by (simp add: handleTool_def set_guild_def get_guild_def sample_world_def sample_args_def
        sample_platform_def getGuild_def cache_get_def sample_guild_def loadConfig_cases
        assign_default_guild_id_def default_guild_id_def saveConfig_def of_opt_def)

text \<open>
  \<^bold>\<open>C3, amended.\<close> Let the config file be absent, unparsable or hold a JSON object, and
  let \<open>X\<close> be the identifier, not the empty string, of a guild that the client has in its
  cache. Once the login has completed, \<^verbatim>\<open>set_guild\<close> with \<open>X\<close> succeeds, and after any
  sequence of calls of tools other than \<^verbatim>\<open>set_guild\<close>, \<^verbatim>\<open>get_guild\<close> returns \<open>X\<close> as
  \<^verbatim>\<open>default_guild_id\<close>.
\<close>

theorem set_guild_then_get_guild:
  assumes ready: "discordReady w = None"
      and known: "X \<in> g_id ` set (guilds_cache P (calls w))"
      and nonempty: "X \<noteq> []"
      and obj: "config_file w = Missing \<or> config_file w = Unparsable \<or>
                (\<exists>kvs. config_file w = Parses (JObj kvs))"
      and others: "''set_guild'' \<notin> fst ` set cs"
  shows "\<exists>r w1 r'. handleTool P oc ''set_guild'' (a\<lparr>guild_id := Some X\<rparr>) w = (Inr r, w1) \<and>
           field ''default_guild_id'' r = Some (str X) \<and>
           fst (handleTool P oc ''get_guild'' a' (run_calls P oc cs w1)) = Inr r' \<and>
           field ''default_guild_id'' r' = Some (str X)"
proof -
  from known obtain g where g: "g \<in> set (guilds_cache P (calls w))" and X: "X = g_id g" by auto
  from obj obtain kvs where kvs: "loadConfig (config_file w) = JObj kvs"
    by (auto simp: loadConfig_cases)
  define w1 where "w1 = w\<lparr>config_file := Parses (JObj (set_field ''default_guild_id'' (JStr X) kvs))\<rparr>"
  define w2 where "w2 = run_calls P oc cs w1"
  from getGuild_found [OF g] obtain g' where "getGuild P (Some (JStr X)) w = Inr g'"
    unfolding X by blast
  from set_guild_known [OF ready this kvs, of oc a] have
    s: "handleTool P oc ''set_guild'' (a\<lparr>guild_id := Some X\<rparr>) w =
           (Inr (Object [(''success'', bool True), (''default_guild_id'', str X),
                         (''guild_name'', str (g_name g'))]), w1)"
    unfolding w1_def .
  from run_calls_frame [OF others, of P oc w1]
  have f: "config_file w2 = config_file w1" "discordReady w2 = discordReady w1"
    by (simp_all add: w2_def)
  have d: "default_guild_id (loadConfig (config_file w2)) = Inr (Some (JStr X))"
    by (simp add: f w1_def loadConfig_cases default_guild_id_def map_of_set_field_same)
  have "\<exists>r'. fst (get_guild P w2) = Inr r' \<and> field ''default_guild_id'' r' = Some (str X)"
    using d nonempty
    by (cases "getGuild P (Some (JStr X)) w2") (simp_all add: get_guild_def field_def of_opt_def)
  then have "\<exists>r'. fst (handleTool P oc ''get_guild'' a' w2) = Inr r' \<and>
                  field ''default_guild_id'' r' = Some (str X)"
    using ready f by (simp add: handleTool_def w1_def)
  with s show ?thesis unfolding w2_def by (auto simp: field_def)
qed

theorem set_guild_then_get_guild_witness:
  "discordReady (sample_world Missing) = None \<and>
   ''123456789012345678'' \<in> g_id ` set (guilds_cache sample_platform (calls (sample_world Missing))) \<and>
   ''123456789012345678'' \<noteq> [] \<and>
   config_file (sample_world Missing) = Missing \<and>
   ''set_guild'' \<notin> fst ` set [(''list_guilds'', sample_args),
                                (''mass_ban'', sample_args\<lparr>user_ids := [''200000000000000001'']\<rparr>)] \<and>
   (\<exists>r w1 r'. handleTool sample_platform sample_other_cases ''set_guild''
                 (sample_args\<lparr>guild_id := Some ''123456789012345678''\<rparr>) (sample_world Missing)
                 = (Inr r, w1) \<and>
      field ''default_guild_id'' r = Some (str ''123456789012345678'') \<and>
      fst (handleTool sample_platform sample_other_cases ''get_guild'' sample_args
             (run_calls sample_platform sample_other_cases
                [(''list_guilds'', sample_args),
                 (''mass_ban'', sample_args\<lparr>user_ids := [''200000000000000001'']\<rparr>)] w1)) = Inr r' \<and>
      field ''default_guild_id'' r' = Some (str ''123456789012345678''))"
proof -
  let ?cs = "[(''list_guilds'', sample_args),
              (''mass_ban'', sample_args\<lparr>user_ids := [''200000000000000001'']\<rparr>)]"
  have h1: "discordReady (sample_world Missing) = None" by (simp add: sample_world_def)
  have h2: "''123456789012345678''
              \<in> g_id ` set (guilds_cache sample_platform (calls (sample_world Missing)))"
    by (simp add: sample_world_def sample_platform_def sample_guild_def)
  have h3: "''123456789012345678'' \<noteq> []" by simp
  have h4: "config_file (sample_world Missing) = Missing" by (simp add: sample_world_def)
  then have h4': "config_file (sample_world Missing) = Missing \<or>
                  config_file (sample_world Missing) = Unparsable \<or>
                  (\<exists>kvs. config_file (sample_world Missing) = Parses (JObj kvs))"
    by simp
  have h5: "''set_guild'' \<notin> fst ` set ?cs" by simp
  from set_guild_then_get_guild [OF h1 h2 h3 h4' h5, of sample_other_cases sample_args sample_args]
  show ?thesis using h1 h2 h3 h4 h5 by blast
qed

text \<open>
  \<^bold>\<open>C10.\<close> \<^verbatim>\<open>set_guild\<close> checks the guild against the client's cache before it touches the
  config: when the given \<^verbatim>\<open>guild_id\<close> is not the identifier of a guild in the cache (or
  is absent), the call fails and the world it leaves is the world it started in, so the
  config file, with any default it held, is unchanged.
\<close>

theorem set_guild_unknown_guild_leaves_config:
  assumes "\<forall>g \<in> set (guilds_cache P (calls w)). guild_id a \<noteq> Some (g_id g)"
  shows "\<exists>e. handleTool P oc ''set_guild'' a w = (Inl e, w) \<and>
             config_file (snd (handleTool P oc ''set_guild'' a w)) = config_file w \<and>
             (discordReady w = None \<longrightarrow>
                e = ''Guild '' @ display_opt (map_option JStr (guild_id a))
                    @ '' not found or bot is not in this server'')"
proof -
  have "\<forall>g \<in> set (guilds_cache P (calls w)). map_option JStr (guild_id a) \<noteq> Some (JStr (g_id g))"
    using assms by (cases "guild_id a") auto
  from getGuild_unknown [OF this] show ?thesis
    by (cases "discordReady w") (simp_all add: handleTool_def set_guild_def)
qed

theorem set_guild_unknown_guild_leaves_config_witness:
  "guild_id (sample_args\<lparr>guild_id := Some ''555555555555555555''\<rparr>)
     \<notin> (\<lambda>g. Some (g_id g)) ` set (guilds_cache sample_platform
           (calls (sample_world (Parses (JObj [(''default_guild_id'', JStr ''9'')]))))) \<and>
   handleTool sample_platform sample_other_cases ''set_guild''
       (sample_args\<lparr>guild_id := Some ''555555555555555555''\<rparr>)
       (sample_world (Parses (JObj [(''default_guild_id'', JStr ''9'')])))
     = (Inl ''Guild 555555555555555555 not found or bot is not in this server'',
        sample_world (Parses (JObj [(''default_guild_id'', JStr ''9'')])))"
proof -
  let ?w = "sample_world (Parses (JObj [(''default_guild_id'', JStr ''9'')]))"
  let ?a = "sample_args\<lparr>guild_id := Some ''555555555555555555''\<rparr>"
  have h: "\<forall>g \<in> set (guilds_cache sample_platform (calls ?w)). guild_id ?a \<noteq> Some (g_id g)"
    by (simp add: sample_platform_def sample_guild_def)
  have r: "discordReady ?w = None" by (simp add: sample_world_def)
  from set_guild_unknown_guild_leaves_config [OF h, of sample_other_cases] r
  have "handleTool sample_platform sample_other_cases ''set_guild'' ?a ?w
        = (Inl (''Guild '' @ display_opt (map_option JStr (guild_id ?a))
                @ '' not found or bot is not in this server''), ?w)"
    by auto
  moreover from h have "guild_id ?a \<notin> (\<lambda>g. Some (g_id g)) ` set (guilds_cache sample_platform (calls ?w))"
    by blast
  ultimately show ?thesis by (simp add: display_opt_def)
qed

text \<open>
  \<^bold>\<open>C8.\<close> \<^verbatim>\<open>get_guild\<close> and \<^verbatim>\<open>list_guilds\<close> change nothing: the world after the call is the
  world before it (config file, requests sent, and with them every cache), and calling
  the tool again, with any arguments, returns the same result.
\<close>

theorem get_guild_list_guilds_read_only:
  assumes "name = ''get_guild'' \<or> name = ''list_guilds''"
  shows "snd (handleTool P oc name a w) = w \<and>
         handleTool P oc name a' (snd (handleTool P oc name a w)) = handleTool P oc name a w"
proof -
  have 1: "snd (handleTool P oc name a w) = w"
    using assms by (auto simp: handleTool_def get_guild_world list_guilds_world split: option.splits)
  have 2: "handleTool P oc name a' w = handleTool P oc name a w"
    using assms by (auto simp: handleTool_def)
  from 1 2 show ?thesis by simp
qed

theorem get_guild_list_guilds_read_only_witness:
  "snd (handleTool sample_platform sample_other_cases ''list_guilds'' sample_args
          (sample_world (Parses (JObj [(''default_guild_id'', JStr ''123456789012345678'')]))))
     = sample_world (Parses (JObj [(''default_guild_id'', JStr ''123456789012345678'')])) \<and>
   handleTool sample_platform sample_other_cases ''list_guilds'' sample_args
     (snd (handleTool sample_platform sample_other_cases ''list_guilds'' sample_args
          (sample_world (Parses (JObj [(''default_guild_id'', JStr ''123456789012345678'')])))))
     = handleTool sample_platform sample_other_cases ''list_guilds'' sample_args
          (sample_world (Parses (JObj [(''default_guild_id'', JStr ''123456789012345678'')]))) \<and>
   fst (handleTool sample_platform sample_other_cases ''get_guild'' sample_args
     (snd (handleTool sample_platform sample_other_cases ''get_guild'' sample_args
          (sample_world (Parses (JObj [(''default_guild_id'', JStr ''123456789012345678'')]))))))
     = Inr (Object [(''default_guild_id'', str ''123456789012345678''), (''guild_name'', str ''Home''),
                    (''member_count'', num 2)])"
proof -
  let ?w = "sample_world (Parses (JObj [(''default_guild_id'', JStr ''123456789012345678'')]))"
  have v: "fst (handleTool sample_platform sample_other_cases ''get_guild'' sample_args ?w)
     = Inr (Object [(''default_guild_id'', str ''123456789012345678''), (''guild_name'', str ''Home''),
                    (''member_count'', num 2)])"
    by code_simp
  from get_guild_list_guilds_read_only [of "''list_guilds''" sample_platform sample_other_cases sample_args ?w sample_args]
       get_guild_list_guilds_read_only [of "''get_guild''" sample_platform sample_other_cases sample_args ?w sample_args]
       v
  show ?thesis by simp
qed

section \<open>Resolving the guild of a call\<close>

text \<open>
  \<^bold>\<open>C4.\<close> A tool other than \<^verbatim>\<open>set_guild\<close>, \<^verbatim>\<open>get_guild\<close> and \<^verbatim>\<open>list_guilds\<close>, called
  with no \<^verbatim>\<open>guild_id\<close> when the config has no \<^verbatim>\<open>default_guild_id\<close>, fails, and the world
  it leaves is the world it started in: no request has been sent. Once the login has
  completed the error is the one that asks for a guild (for a config file that holds
  \<^verbatim>\<open>null\<close> it is the \<^verbatim>\<open>TypeError\<close> of reading the property).
\<close>

theorem no_guild_fails_before_any_request:
  assumes "name \<notin> set guild_commands"
      and "guild_id a = None"
      and "\<forall>d. default_guild_id (loadConfig (config_file w)) = Inr (Some d) \<longrightarrow> \<not> truthy d"
  shows "\<exists>e. handleTool P oc name a w = (Inl e, w) \<and>
             (discordReady w = None \<and> loadConfig (config_file w) \<noteq> JNull \<longrightarrow>
                e = ''No guild_id provided and no default guild set. Use set_guild first.'')"
proof (cases "discordReady w")
  case (Some e)
  then show ?thesis by (simp add: handleTool_def)
next
  case None
  have n: "name \<noteq> ''set_guild''" "name \<noteq> ''get_guild''" "name \<noteq> ''list_guilds''"
    using assms(1) by (auto simp: guild_commands_def)
  show ?thesis
  proof (cases "default_guild_id (loadConfig (config_file w))")
    case (Inl e)
    then have "loadConfig (config_file w) = JNull"
      by (auto simp: default_guild_id_def split: json.splits)
    with Inl None n assms(2) show ?thesis
      by (simp add: handleTool_def resolveGuildId_def)
  next
    case (Inr d)
    with assms(3) have "d = None \<or> (\<exists>v. d = Some v \<and> \<not> truthy v)" by (cases d) auto
    with Inr None n assms(2) show ?thesis
      by (auto simp add: handleTool_def resolveGuildId_def)
  qed
qed

theorem no_guild_fails_before_any_request_witness:
  "''mass_ban'' \<notin> set guild_commands \<and>
   guild_id (sample_args\<lparr>user_ids := [''200000000000000001'']\<rparr>) = None \<and>
   default_guild_id (loadConfig (config_file (sample_world Missing))) = Inr None \<and>
   handleTool sample_platform sample_other_cases ''mass_ban''
       (sample_args\<lparr>user_ids := [''200000000000000001'']\<rparr>) (sample_world Missing)
     = (Inl ''No guild_id provided and no default guild set. Use set_guild first.'', sample_world Missing)"
proof -
  let ?a = "sample_args\<lparr>user_ids := [''200000000000000001'']\<rparr>"
  have h1: "''mass_ban'' \<notin> set guild_commands" by (simp add: guild_commands_def)
  have h2: "guild_id ?a = None" by (simp add: sample_args_def)
  have d: "default_guild_id (loadConfig (config_file (sample_world Missing))) = Inr None"
    by (simp add: sample_world_def loadConfig_cases default_guild_id_def)
  then have h3: "\<forall>d. default_guild_id (loadConfig (config_file (sample_world Missing))) = Inr (Some d)
                   \<longrightarrow> \<not> truthy d"
    by simp
  have r: "discordReady (sample_world Missing) = None \<and> loadConfig (config_file (sample_world Missing)) \<noteq> JNull"
    by (simp add: sample_world_def loadConfig_cases)
  from no_guild_fails_before_any_request [OF h1 h2 h3, of sample_platform sample_other_cases] r
  have "handleTool sample_platform sample_other_cases ''mass_ban'' ?a (sample_world Missing)
     = (Inl ''No guild_id provided and no default guild set. Use set_guild first.'', sample_world Missing)"
    by auto
  with h1 h2 d show ?thesis by simp
qed

section \<open>Fetching messages and timing out a member\<close>

lemma resolveTextChannel_calls:
  "\<exists>cs. calls (snd (resolveTextChannel P g c w)) = calls w @ cs \<and>
        set cs \<subseteq> {ChannelsFetch c, FetchActiveThreads (g_id g)}"
  by (auto simp: resolveTextChannel_direct Let_def perform_def
           split: option.splits sum.splits prod.splits)

lemma get_messages_calls:
  "calls (snd (get_messages P a guild w)) =
     (case resolveTextChannel P guild (channel_id a) w of
        (Inl e, w1) \<Rightarrow> calls w1
      | (Inr ch, w1) \<Rightarrow> calls w1 @ [MessagesFetchMany (ch_id ch) (min (num_or (limit a) 20) 100)
                                       (str_or_null (before_message_id a))])"
  by (simp add: get_messages_def Let_def perform_def split: sum.splits prod.splits)

lemma num_or_limit:
  "min (num_or l 20) 100 = (case l of None \<Rightarrow> 20 | Some k \<Rightarrow> if k = 0 then 20 else min k 100)"
  by (simp add: num_or_def split: option.splits)

lemma handleTool_get_messages:
  "handleTool P oc ''get_messages'' a w =
     (case discordReady w of
        Some e \<Rightarrow> (Inl e, w)
      | None \<Rightarrow>
         (case resolveGuildId a w of
            Inl e \<Rightarrow> (Inl e, w)
          | Inr guildId \<Rightarrow>
              (case getGuild P (Some guildId) w of
                 Inl e \<Rightarrow> (Inl e, w)
               | Inr guild \<Rightarrow> get_messages P a guild w)))"
  by (simp add: handleTool_def guild_switch_def split: option.splits sum.splits)

text \<open>
  \<^bold>\<open>C9.\<close> A \<^verbatim>\<open>get_messages\<close> call does not ask the platform for \<open>min(limit, 100)\<close>
  messages whenever \<^verbatim>\<open>limit\<close> is given: with \<^verbatim>\<open>limit\<close> given as 0 the code, by
  \<^verbatim>\<open>args.limit || 20\<close>, asks for 20 messages, not for \<open>min(0, 100) = 0\<close>.
\<close>

theorem get_messages_limit_zero_counterexample:
  "limit (sample_args\<lparr>guild_id := Some ''123456789012345678'', limit := Some 0\<rparr>) = Some 0 \<and>
   calls (snd (handleTool sample_platform sample_other_cases ''get_messages''
      (sample_args\<lparr>guild_id := Some ''123456789012345678'', limit := Some 0\<rparr>) (sample_world Missing)))
     = [MessagesFetchMany ''c1'' 20 None] \<and>
   min (0::int) 100 \<noteq> 20"
  by (simp add: handleTool_def guild_switch_def get_messages_def resolveGuildId_def getGuild_def cache_get_def
      resolveTextChannel_direct perform_def sample_world_def sample_args_def sample_platform_def sample_guild_def
      num_or_def str_or_null_def Let_def)

text \<open>
  \<^bold>\<open>C9, amended.\<close> Every request for messages that a \<^verbatim>\<open>get_messages\<close> call sends asks for
  \<open>min(limit, 100)\<close> messages when \<^verbatim>\<open>limit\<close> is given and is not 0, and for 20 when it is
  omitted or 0; that number is at most 100. When the login has completed and the guild and
  the channel resolve, the call sends exactly one such request, after those of resolving
  the channel.
\<close>

theorem get_messages_requested_limit:
  "\<exists>cs. calls (snd (handleTool P oc ''get_messages'' a w)) = calls w @ cs \<and>
     (\<forall>c n b. MessagesFetchMany c n b \<in> set cs \<longrightarrow>
        n = (case limit a of None \<Rightarrow> 20 | Some k \<Rightarrow> if k = 0 then 20 else min k 100) \<and> n \<le> 100) \<and>
     (\<forall>gid guild ch w1.
        discordReady w = None \<and> resolveGuildId a w = Inr gid \<and> getGuild P (Some gid) w = Inr guild \<and>
        resolveTextChannel P guild (channel_id a) w = (Inr ch, w1) \<longrightarrow>
        calls (snd (handleTool P oc ''get_messages'' a w)) =
          calls w1 @ [MessagesFetchMany (ch_id ch)
                        (case limit a of None \<Rightarrow> 20 | Some k \<Rightarrow> if k = 0 then 20 else min k 100)
                        (str_or_null (before_message_id a))])"
proof -
  let ?n = "case limit a of None \<Rightarrow> 20 | Some k \<Rightarrow> if k = 0 then 20 else min k 100"
  have le: "?n \<le> 100" by (simp split: option.splits)
  have part2: "\<forall>gid guild ch w1.
        discordReady w = None \<and> resolveGuildId a w = Inr gid \<and> getGuild P (Some gid) w = Inr guild \<and>
        resolveTextChannel P guild (channel_id a) w = (Inr ch, w1) \<longrightarrow>
        calls (snd (handleTool P oc ''get_messages'' a w)) =
          calls w1 @ [MessagesFetchMany (ch_id ch) ?n (str_or_null (before_message_id a))]"
    by (auto simp: handleTool_get_messages get_messages_calls num_or_limit)
  have part1: "\<exists>cs. calls (snd (handleTool P oc ''get_messages'' a w)) = calls w @ cs \<and>
     (\<forall>c n b. MessagesFetchMany c n b \<in> set cs \<longrightarrow> n = ?n)"
  proof (cases "\<exists>gid guild. discordReady w = None \<and> resolveGuildId a w = Inr gid \<and>
                  getGuild P (Some gid) w = Inr guild")
    case False
    then have "snd (handleTool P oc ''get_messages'' a w) = w"
      by (auto simp: handleTool_get_messages split: option.splits sum.splits)
    then show ?thesis by simp
  next
    case True
    then obtain gid guild where g: "discordReady w = None" "resolveGuildId a w = Inr gid"
      "getGuild P (Some gid) w = Inr guild" by blast
    obtain r w1 where r: "resolveTextChannel P guild (channel_id a) w = (r, w1)"
      by (cases "resolveTextChannel P guild (channel_id a) w")
    from resolveTextChannel_calls [of P guild "channel_id a" w] r obtain cs0 where
      cs0: "calls w1 = calls w @ cs0"
           "set cs0 \<subseteq> {ChannelsFetch (channel_id a), FetchActiveThreads (g_id guild)}"
      by auto
    have h: "handleTool P oc ''get_messages'' a w = get_messages P a guild w"
      using g by (simp add: handleTool_get_messages)
    show ?thesis
    proof (cases r)
      case (Inl e)
      with r cs0 h show ?thesis by (auto simp: get_messages_calls)
    next
      case (Inr ch)
      with r cs0 h have
        "calls (snd (handleTool P oc ''get_messages'' a w)) =
           calls w @ (cs0 @ [MessagesFetchMany (ch_id ch) ?n (str_or_null (before_message_id a))])"
        by (simp add: get_messages_calls num_or_limit)
      moreover have "\<forall>c n b. MessagesFetchMany c n b
           \<in> set (cs0 @ [MessagesFetchMany (ch_id ch) ?n (str_or_null (before_message_id a))])
           \<longrightarrow> n = ?n"
        using cs0(2) by auto
      ultimately show ?thesis by blast
    qed
  qed
  from part1 obtain cs where "calls (snd (handleTool P oc ''get_messages'' a w)) = calls w @ cs"
    "\<forall>c n b. MessagesFetchMany c n b \<in> set cs \<longrightarrow> n = ?n" by blast
  with le part2 show ?thesis by blast
qed

theorem get_messages_requested_limit_witness:
  "discordReady (sample_world Missing) = None \<and>
   resolveGuildId (sample_args\<lparr>guild_id := Some ''123456789012345678'', limit := Some 250\<rparr>)
      (sample_world Missing) = Inr (JStr ''123456789012345678'') \<and>
   getGuild sample_platform (Some (JStr ''123456789012345678'')) (sample_world Missing) = Inr sample_guild \<and>
   resolveTextChannel sample_platform sample_guild
      (channel_id (sample_args\<lparr>guild_id := Some ''123456789012345678'', limit := Some 250\<rparr>))
      (sample_world Missing)
     = (Inr \<lparr>ch_id = ''c1'', ch_name = ''general'', ch_isTextBased = True\<rparr>, sample_world Missing) \<and>
   calls (snd (handleTool sample_platform sample_other_cases ''get_messages''
      (sample_args\<lparr>guild_id := Some ''123456789012345678'', limit := Some 250\<rparr>) (sample_world Missing)))
     = [MessagesFetchMany ''c1'' 100 None]"
proof -
  let ?a = "sample_args\<lparr>guild_id := Some ''123456789012345678'', limit := Some 250\<rparr>"
  let ?w = "sample_world Missing"
  let ?c = "\<lparr>ch_id = ''c1'', ch_name = ''general'', ch_isTextBased = True\<rparr>"
  have h1: "discordReady ?w = None" by (simp add: sample_world_def)
  have h2: "resolveGuildId ?a ?w = Inr (JStr ''123456789012345678'')"
    by (simp add: resolveGuildId_def)
  have h3: "getGuild sample_platform (Some (JStr ''123456789012345678'')) ?w = Inr sample_guild"
    by (simp add: getGuild_def cache_get_def sample_platform_def sample_guild_def)
  have h4: "resolveTextChannel sample_platform sample_guild (channel_id ?a) ?w = (Inr ?c, ?w)"
    by (simp add: resolveTextChannel_direct cache_get_def sample_platform_def sample_args_def Let_def)
  have v: "calls ?w = []" "limit ?a = Some 250" "str_or_null (before_message_id ?a) = None" "ch_id ?c = ''c1''"
    by (simp_all add: sample_world_def sample_args_def str_or_null_def)
  from get_messages_requested_limit [of sample_platform sample_other_cases ?a ?w]
  have "discordReady ?w = None \<and> resolveGuildId ?a ?w = Inr (JStr ''123456789012345678'') \<and>
        getGuild sample_platform (Some (JStr ''123456789012345678'')) ?w = Inr sample_guild \<and>
        resolveTextChannel sample_platform sample_guild (channel_id ?a) ?w = (Inr ?c, ?w) \<longrightarrow>
        calls (snd (handleTool sample_platform sample_other_cases ''get_messages'' ?a ?w)) =
          calls ?w @ [MessagesFetchMany (ch_id ?c)
                        (case limit ?a of None \<Rightarrow> 20 | Some k \<Rightarrow> if k = 0 then 20 else min k 100)
                        (str_or_null (before_message_id ?a))]"
    by blast
  with h1 h2 h3 h4 have
    "calls (snd (handleTool sample_platform sample_other_cases ''get_messages'' ?a ?w)) =
          calls ?w @ [MessagesFetchMany (ch_id ?c)
                        (case limit ?a of None \<Rightarrow> 20 | Some k \<Rightarrow> if k = 0 then 20 else min k 100)
                        (str_or_null (before_message_id ?a))]"
    by blast
  then have "calls (snd (handleTool sample_platform sample_other_cases ''get_messages'' ?a ?w))
     = [MessagesFetchMany ''c1'' 100 None]"
    by (simp add: v sample_args_def str_or_null_def)
  with h1 h2 h3 h4 show ?thesis by blast
qed

lemma handleTool_time_out_user:
  assumes "discordReady w = None" "resolveGuildId a w = Inr gid" "getGuild P (Some gid) w = Inr guild"
  shows "handleTool P oc ''time_out_user'' a w = time_out_user P a guild w"
  using assms by (simp add: handleTool_def guild_switch_def)

text \<open>
  \<^bold>\<open>C7.\<close> The specification has \<^verbatim>\<open>until\<close> equal to the time of the call plus the
  duration. The code reads the clock when it builds the result, after the two requests
  it awaits. On the sample platform, where the clock reads 1700000000000 when the call is
  made and advances by 125 milliseconds with each of the two requests, a timeout of 10
  minutes returns 1700000600250 as \<^verbatim>\<open>until\<close>, not 1700000600000.
\<close>

theorem time_out_user_until_counterexample:
  "date_now sample_platform (calls (sample_world Missing)) 0 = 1700000000000 \<and>
   duration_minutes (sample_args\<lparr>guild_id := Some ''123456789012345678''\<rparr>) = 10 \<and>
   handleTool sample_platform sample_other_cases ''time_out_user''
       (sample_args\<lparr>guild_id := Some ''123456789012345678''\<rparr>) (sample_world Missing)
     = (Inr (Object [(''timed_out'', str ''200000000000000001''), (''username'', str ''alice''),
                     (''duration_minutes'', num 10), (''until'', DateVal 1700000600250),
                     (''reason'', str ''No reason provided'')]),
        (sample_world Missing)\<lparr>calls := [MembersFetchAll ''123456789012345678'',
           MemberTimeout ''123456789012345678'' ''200000000000000001'' 600000 ''No reason provided'']\<rparr>) \<and>
   DateVal 1700000600250 \<noteq> DateVal (1700000000000 + 600000)"
  by code_simp

text \<open>
  \<^bold>\<open>C7, amended.\<close> A \<^verbatim>\<open>time_out_user\<close> call whose member resolves sends the platform one
  timeout request, for that member, with a duration of \<^verbatim>\<open>duration_minutes\<close> times 60000
  milliseconds. When the platform accepts it, the \<^verbatim>\<open>until\<close> property of the result is the
  date made of the reading of the clock after that request has been answered, plus that
  duration (plus 600000 for 10 minutes): a timestamp when that sum is within 8.64e15
  milliseconds of the epoch, and an invalid date otherwise.
\<close>

theorem time_out_user_until:
  assumes ready: "discordReady w = None"
      and gid: "resolveGuildId a w = Inr gid"
      and guild: "getGuild P (Some gid) w = Inr guild"
      and member: "resolveMember P guild (user_id a) w = (Inr m, w1)"
  shows "calls (snd (handleTool P oc ''time_out_user'' a w)) =
           calls w1 @ [MemberTimeout (g_id guild) (m_id m) (duration_minutes a * 60 * 1000)
                         (str_or (reason a) ''No reason provided'')] \<and>
         (member_timeout P (calls w1) (g_id guild) (m_id m) (duration_minutes a * 60 * 1000)
              (str_or (reason a) ''No reason provided'') = Inr () \<longrightarrow>
            (\<exists>r now. fst (handleTool P oc ''time_out_user'' a w) = Inr r \<and>
                 now = date_now P (calls (snd (handleTool P oc ''time_out_user'' a w))) 0 \<and>
                 field ''until'' r = Some (new_Date (now + duration_minutes a * 60 * 1000)) \<and>
                 (\<bar>now + duration_minutes a * 60 * 1000\<bar> \<le> 8640000000000000 \<longrightarrow>
                    field ''until'' r = Some (DateVal (now + duration_minutes a * 60 * 1000))) \<and>
                 (\<bar>now + duration_minutes a * 60 * 1000\<bar> > 8640000000000000 \<longrightarrow>
                    field ''until'' r = Some InvalidDate) \<and>
                 (duration_minutes a = 10 \<longrightarrow> field ''until'' r = Some (new_Date (now + 600000)))))"
  unfolding handleTool_time_out_user [OF ready gid guild]
  using member
  by (auto simp: time_out_user_def timeout_op_def perform_def Let_def field_def new_Date_def
           split: sum.splits)

theorem time_out_user_until_witness:
  "discordReady (sample_world Missing) = None \<and>
   resolveGuildId (sample_args\<lparr>guild_id := Some ''123456789012345678''\<rparr>) (sample_world Missing)
     = Inr (JStr ''123456789012345678'') \<and>
   getGuild sample_platform (Some (JStr ''123456789012345678'')) (sample_world Missing) = Inr sample_guild \<and>
   resolveMember sample_platform sample_guild
       (user_id (sample_args\<lparr>guild_id := Some ''123456789012345678''\<rparr>)) (sample_world Missing)
     = (Inr alice, (sample_world Missing)\<lparr>calls := [MembersFetchAll ''123456789012345678'']\<rparr>) \<and>
   calls (snd (handleTool sample_platform sample_other_cases ''time_out_user''
                 (sample_args\<lparr>guild_id := Some ''123456789012345678''\<rparr>) (sample_world Missing)))
     = [MembersFetchAll ''123456789012345678'',
        MemberTimeout ''123456789012345678'' ''200000000000000001'' 600000 ''No reason provided''] \<and>
   (\<exists>r. fst (handleTool sample_platform sample_other_cases ''time_out_user''
                 (sample_args\<lparr>guild_id := Some ''123456789012345678''\<rparr>) (sample_world Missing)) = Inr r \<and>
        field ''until'' r = Some (DateVal 1700000600250))"
proof -
  let ?a = "sample_args\<lparr>guild_id := Some ''123456789012345678''\<rparr>"
  let ?w = "sample_world Missing"
  have h1: "discordReady ?w = None" by (simp add: sample_world_def)
  have h2: "resolveGuildId ?a ?w = Inr (JStr ''123456789012345678'')"
    by (simp add: resolveGuildId_def)
  have h3: "getGuild sample_platform (Some (JStr ''123456789012345678'')) ?w = Inr sample_guild"
    by (simp add: getGuild_def cache_get_def sample_platform_def sample_guild_def)
  have h4: "resolveMember sample_platform sample_guild (user_id ?a) ?w
              = (Inr alice, ?w\<lparr>calls := [MembersFetchAll ''123456789012345678'']\<rparr>)"
    by code_simp
  have t: "member_timeout sample_platform (calls (?w\<lparr>calls := [MembersFetchAll ''123456789012345678'']\<rparr>))
             (g_id sample_guild) (m_id alice) (duration_minutes ?a * 60 * 1000)
             (str_or (reason ?a) ''No reason provided'') = Inr ()"
    by code_simp
  have d: "duration_minutes sample_args = 10" by (simp add: sample_args_def)
  note t0 = time_out_user_until [OF h1 h2 h3 h4, of sample_other_cases]
  from t0 have "calls (snd (handleTool sample_platform sample_other_cases ''time_out_user'' ?a ?w))
     = calls (?w\<lparr>calls := [MembersFetchAll ''123456789012345678'']\<rparr>)
       @ [MemberTimeout (g_id sample_guild) (m_id alice) (duration_minutes ?a * 60 * 1000)
            (str_or (reason ?a) ''No reason provided'')]"
    by (rule conjunct1)
  then have c: "calls (snd (handleTool sample_platform sample_other_cases ''time_out_user'' ?a ?w))
     = [MembersFetchAll ''123456789012345678'',
        MemberTimeout ''123456789012345678'' ''200000000000000001'' 600000 ''No reason provided'']"
    by (simp add: sample_guild_def alice_def sample_args_def str_or_def)
  have n: "date_now sample_platform [MembersFetchAll ''123456789012345678'',
        MemberTimeout ''123456789012345678'' ''200000000000000001'' 600000 ''No reason provided''] 0
        = 1700000000250"
    by (simp add: sample_platform_def)
  from t0 t obtain r where
    "fst (handleTool sample_platform sample_other_cases ''time_out_user'' ?a ?w) = Inr r"
    "field ''until'' r = Some (new_Date (date_now sample_platform
        (calls (snd (handleTool sample_platform sample_other_cases ''time_out_user'' ?a ?w))) 0
        + duration_minutes ?a * 60 * 1000))"
    by blast
  then have "\<exists>r. fst (handleTool sample_platform sample_other_cases ''time_out_user'' ?a ?w) = Inr r \<and>
        field ''until'' r = Some (DateVal 1700000600250)"
    using d by (simp add: c n new_Date_def)
  with h1 h2 h3 h4 c show ?thesis by blast
qed

section \<open>Resolving members and roles\<close>

lemma digit_run_iff:
  "digit_run lo hi s \<longleftrightarrow> lo \<le> length s \<and> length s \<le> hi \<and> (\<forall>c \<in> set s. is_digit c)"
  by (induction s arbitrary: lo hi) auto

lemma id_pattern_test_iff: "id_pattern_test s \<longleftrightarrow> decimal_17_to_20 s"
  by (simp add: id_pattern_test_def digit_run_iff decimal_17_to_20_def is_digit_def)

lemma find_first:
  assumes "i < length xs" "P (xs ! i)" "\<forall>j<i. \<not> P (xs ! j)"
  shows "find P xs = Some (xs ! i)"
  using assms by (auto simp: find_Some_iff)

lemma find_none: "(\<forall>x \<in> set xs. \<not> P x) \<Longrightarrow> find P xs = None"
  by (simp add: find_None_iff)

lemma member_matches_iff: "member_matches P (toLowerCase P tok) m \<longleftrightarrow> name_of_member_is P tok m"
  by (auto simp: member_matches_def name_of_member_is_def split: option.splits)

lemma member_matches_eq: "member_matches P (toLowerCase P tok) = name_of_member_is P tok"
  by (rule ext) (rule member_matches_iff)

text \<open>
  \<^bold>\<open>C2.\<close> The test of the resolvers holds exactly for the tokens of 17 to 20 decimal
  digits. For such a token the member resolver sends one fetch of the member by that
  identifier and returns its answer, and the role resolver looks the identifier up in the
  role cache. For every other token the member resolver sends one fetch of all members
  and then returns the first member of the cache one of whose names equals the token,
  case ignored, and fails with the not-found error when there is none; the role resolver
  does the same with the names of the cached roles. Two names are equal, case ignored, when
  the engine's \<^verbatim>\<open>toLowerCase\<close> takes them to the same string.
\<close>

theorem resolvers_follow_identifier_shape:
  "(id_pattern_test tok \<longleftrightarrow> decimal_17_to_20 tok) \<and>
   (decimal_17_to_20 tok \<longrightarrow>
      resolveMember P g tok w =
        (members_fetch P (calls w) (g_id g) tok, w\<lparr>calls := calls w @ [MembersFetch (g_id g) tok]\<rparr>) \<and>
      resolveRole P g tok w =
        (case find (\<lambda>r. r_id r = tok) (roles_cache P (calls w) (g_id g)) of
           None \<Rightarrow> Inl (''Role '' @ tok @ '' not found'')
         | Some r \<Rightarrow> Inr r)) \<and>
   (\<not> decimal_17_to_20 tok \<longrightarrow>
      snd (resolveMember P g tok w) = w\<lparr>calls := calls w @ [MembersFetchAll (g_id g)]\<rparr> \<and>
      (\<forall>e. members_fetch_all P (calls w) (g_id g) = Inl e \<longrightarrow> fst (resolveMember P g tok w) = Inl e) \<and>
      (members_fetch_all P (calls w) (g_id g) = Inr () \<longrightarrow>
         (\<forall>i. i < length (members_cache P (calls w @ [MembersFetchAll (g_id g)]) (g_id g)) \<and>
               name_of_member_is P tok (members_cache P (calls w @ [MembersFetchAll (g_id g)]) (g_id g) ! i) \<and>
               (\<forall>j<i. \<not> name_of_member_is P tok
                          (members_cache P (calls w @ [MembersFetchAll (g_id g)]) (g_id g) ! j)) \<longrightarrow>
               fst (resolveMember P g tok w)
                 = Inr (members_cache P (calls w @ [MembersFetchAll (g_id g)]) (g_id g) ! i)) \<and>
         ((\<forall>m \<in> set (members_cache P (calls w @ [MembersFetchAll (g_id g)]) (g_id g)).
               \<not> name_of_member_is P tok m) \<longrightarrow>
            fst (resolveMember P g tok w)
              = Inl (''User '' @ [CHR 0x22] @ tok @ [CHR 0x22] @ '' not found in this server''))) \<and>
      (\<forall>i. i < length (roles_cache P (calls w) (g_id g)) \<and>
            toLowerCase P (r_name (roles_cache P (calls w) (g_id g) ! i)) = toLowerCase P tok \<and>
            (\<forall>j<i. toLowerCase P (r_name (roles_cache P (calls w) (g_id g) ! j)) \<noteq> toLowerCase P tok) \<longrightarrow>
            resolveRole P g tok w = Inr (roles_cache P (calls w) (g_id g) ! i)) \<and>
      ((\<forall>r \<in> set (roles_cache P (calls w) (g_id g)). toLowerCase P (r_name r) \<noteq> toLowerCase P tok) \<longrightarrow>
         resolveRole P g tok w = Inl (''Role '' @ [CHR 0x22] @ tok @ [CHR 0x22] @ '' not found'')))"
proof -
  let ?roster = "members_cache P (calls w @ [MembersFetchAll (g_id g)]) (g_id g)"
  let ?roles = "roles_cache P (calls w) (g_id g)"
  have a: "id_pattern_test tok \<longleftrightarrow> decimal_17_to_20 tok" by (rule id_pattern_test_iff)
  have b: "decimal_17_to_20 tok \<longrightarrow>
      resolveMember P g tok w =
        (members_fetch P (calls w) (g_id g) tok, w\<lparr>calls := calls w @ [MembersFetch (g_id g) tok]\<rparr>) \<and>
      resolveRole P g tok w =
        (case find (\<lambda>r. r_id r = tok) ?roles of
           None \<Rightarrow> Inl (''Role '' @ tok @ '' not found'')
         | Some r \<Rightarrow> Inr r)"
    by (simp add: resolveMember_direct resolveRole_def perform_def cache_get_def a)
  have m: "\<not> decimal_17_to_20 tok \<Longrightarrow>
      resolveMember P g tok w =
        (case members_fetch_all P (calls w) (g_id g) of
           Inl e \<Rightarrow> (Inl e, w\<lparr>calls := calls w @ [MembersFetchAll (g_id g)]\<rparr>)
         | Inr u \<Rightarrow>
            (case find (name_of_member_is P tok) ?roster of
               None \<Rightarrow> (Inl (''User '' @ [CHR 0x22] @ tok @ [CHR 0x22] @ '' not found in this server''),
                        w\<lparr>calls := calls w @ [MembersFetchAll (g_id g)]\<rparr>)
             | Some x \<Rightarrow> (Inr x, w\<lparr>calls := calls w @ [MembersFetchAll (g_id g)]\<rparr>)))"
    by (simp add: resolveMember_direct perform_def a Let_def member_matches_eq split: sum.splits)
  have r: "\<not> decimal_17_to_20 tok \<Longrightarrow>
      resolveRole P g tok w =
        (case find (\<lambda>r. toLowerCase P (r_name r) = toLowerCase P tok) ?roles of
           None \<Rightarrow> Inl (''Role '' @ [CHR 0x22] @ tok @ [CHR 0x22] @ '' not found'')
         | Some x \<Rightarrow> Inr x)"
    by (simp add: resolveRole_def a Let_def)
  have c: "\<not> decimal_17_to_20 tok \<longrightarrow>
      snd (resolveMember P g tok w) = w\<lparr>calls := calls w @ [MembersFetchAll (g_id g)]\<rparr> \<and>
      (\<forall>e. members_fetch_all P (calls w) (g_id g) = Inl e \<longrightarrow> fst (resolveMember P g tok w) = Inl e) \<and>
      (members_fetch_all P (calls w) (g_id g) = Inr () \<longrightarrow>
         (\<forall>i. i < length ?roster \<and> name_of_member_is P tok (?roster ! i) \<and>
               (\<forall>j<i. \<not> name_of_member_is P tok (?roster ! j)) \<longrightarrow>
               fst (resolveMember P g tok w) = Inr (?roster ! i)) \<and>
         ((\<forall>m \<in> set ?roster. \<not> name_of_member_is P tok m) \<longrightarrow>
            fst (resolveMember P g tok w)
              = Inl (''User '' @ [CHR 0x22] @ tok @ [CHR 0x22] @ '' not found in this server'')))"
  proof
    assume n: "\<not> decimal_17_to_20 tok"
    have 1: "snd (resolveMember P g tok w) = w\<lparr>calls := calls w @ [MembersFetchAll (g_id g)]\<rparr>"
      by (simp add: m [OF n] split: sum.splits option.splits)
    have 2: "\<forall>e. members_fetch_all P (calls w) (g_id g) = Inl e \<longrightarrow> fst (resolveMember P g tok w) = Inl e"
      by (simp add: m [OF n])
    have 3: "members_fetch_all P (calls w) (g_id g) = Inr () \<longrightarrow>
         (\<forall>i. i < length ?roster \<and> name_of_member_is P tok (?roster ! i) \<and>
               (\<forall>j<i. \<not> name_of_member_is P tok (?roster ! j)) \<longrightarrow>
               fst (resolveMember P g tok w) = Inr (?roster ! i))"
    proof (intro impI allI)
      fix i
      assume ok: "members_fetch_all P (calls w) (g_id g) = Inr ()"
         and i: "i < length ?roster \<and> name_of_member_is P tok (?roster ! i) \<and>
               (\<forall>j<i. \<not> name_of_member_is P tok (?roster ! j))"
      then have "find (name_of_member_is P tok) ?roster = Some (?roster ! i)"
        by (intro find_first) auto
      with ok show "fst (resolveMember P g tok w) = Inr (?roster ! i)"
        by (simp add: m [OF n])
    qed
    have 4: "members_fetch_all P (calls w) (g_id g) = Inr () \<longrightarrow>
         ((\<forall>m \<in> set ?roster. \<not> name_of_member_is P tok m) \<longrightarrow>
            fst (resolveMember P g tok w)
              = Inl (''User '' @ [CHR 0x22] @ tok @ [CHR 0x22] @ '' not found in this server''))"
    proof (intro impI)
      assume ok: "members_fetch_all P (calls w) (g_id g) = Inr ()"
         and no: "\<forall>m \<in> set ?roster. \<not> name_of_member_is P tok m"
      from find_none [OF no] ok
      show "fst (resolveMember P g tok w)
              = Inl (''User '' @ [CHR 0x22] @ tok @ [CHR 0x22] @ '' not found in this server'')"
        by (simp add: m [OF n])
    qed
    from 1 2 3 4 show "snd (resolveMember P g tok w) = w\<lparr>calls := calls w @ [MembersFetchAll (g_id g)]\<rparr> \<and>
      (\<forall>e. members_fetch_all P (calls w) (g_id g) = Inl e \<longrightarrow> fst (resolveMember P g tok w) = Inl e) \<and>
      (members_fetch_all P (calls w) (g_id g) = Inr () \<longrightarrow>
         (\<forall>i. i < length ?roster \<and> name_of_member_is P tok (?roster ! i) \<and>
               (\<forall>j<i. \<not> name_of_member_is P tok (?roster ! j)) \<longrightarrow>
               fst (resolveMember P g tok w) = Inr (?roster ! i)) \<and>
         ((\<forall>m \<in> set ?roster. \<not> name_of_member_is P tok m) \<longrightarrow>
            fst (resolveMember P g tok w)
              = Inl (''User '' @ [CHR 0x22] @ tok @ [CHR 0x22] @ '' not found in this server'')))"
      by blast
  qed
  have d: "\<not> decimal_17_to_20 tok \<longrightarrow>
      (\<forall>i. i < length ?roles \<and> toLowerCase P (r_name (?roles ! i)) = toLowerCase P tok \<and>
            (\<forall>j<i. toLowerCase P (r_name (?roles ! j)) \<noteq> toLowerCase P tok) \<longrightarrow>
            resolveRole P g tok w = Inr (?roles ! i)) \<and>
      ((\<forall>r \<in> set ?roles. toLowerCase P (r_name r) \<noteq> toLowerCase P tok) \<longrightarrow>
         resolveRole P g tok w = Inl (''Role '' @ [CHR 0x22] @ tok @ [CHR 0x22] @ '' not found''))"
  proof (intro impI conjI allI)
    fix i
    assume n: "\<not> decimal_17_to_20 tok"
       and i: "i < length ?roles \<and> toLowerCase P (r_name (?roles ! i)) = toLowerCase P tok \<and>
            (\<forall>j<i. toLowerCase P (r_name (?roles ! j)) \<noteq> toLowerCase P tok)"
    then have "find (\<lambda>r. toLowerCase P (r_name r) = toLowerCase P tok) ?roles = Some (?roles ! i)"
      by (intro find_first) auto
    then show "resolveRole P g tok w = Inr (?roles ! i)" by (simp add: r [OF n])
  next
    assume n: "\<not> decimal_17_to_20 tok"
       and no: "\<forall>r \<in> set ?roles. toLowerCase P (r_name r) \<noteq> toLowerCase P tok"
    from find_none [of ?roles "\<lambda>r. toLowerCase P (r_name r) = toLowerCase P tok"] no
    have "find (\<lambda>r. toLowerCase P (r_name r) = toLowerCase P tok) ?roles = None" by blast
    then show "resolveRole P g tok w = Inl (''Role '' @ [CHR 0x22] @ tok @ [CHR 0x22] @ '' not found'')"
      by (simp add: r [OF n])
  qed
  from a b c d show ?thesis by blast
qed

lemma toLowerCase_samples:
  "toLowerCase sample_platform ''BOB'' = ''bob''" "toLowerCase sample_platform ''bob'' = ''bob''"
  "toLowerCase sample_platform ''Bob'' = ''bob''" "toLowerCase sample_platform ''alice'' = ''alice''"
  "toLowerCase sample_platform ''Ally'' = ''ally''" "toLowerCase sample_platform ''Alice A'' = ''alice a''"
  by code_simp+

theorem resolvers_follow_identifier_shape_witness:
  "decimal_17_to_20 ''200000000000000002'' \<and>
   resolveMember sample_platform sample_guild ''200000000000000002'' (sample_world Missing)
     = (Inr bob, (sample_world Missing)\<lparr>calls := [MembersFetch ''123456789012345678'' ''200000000000000002'']\<rparr>) \<and>
   \<not> decimal_17_to_20 ''BOB'' \<and>
   members_fetch_all sample_platform (calls (sample_world Missing)) (g_id sample_guild) = Inr () \<and>
   name_of_member_is sample_platform ''BOB'' bob \<and> \<not> name_of_member_is sample_platform ''BOB'' alice \<and>
   resolveMember sample_platform sample_guild ''BOB'' (sample_world Missing)
     = (Inr bob, (sample_world Missing)\<lparr>calls := [MembersFetchAll ''123456789012345678'']\<rparr>)"
proof -
  let ?w = "sample_world Missing"
  let ?roster = "members_cache sample_platform (calls ?w @ [MembersFetchAll (g_id sample_guild)]) (g_id sample_guild)"
  have d1: "decimal_17_to_20 ''200000000000000002''" by (simp add: decimal_17_to_20_def)
  have d2: "\<not> decimal_17_to_20 ''BOB''" by (simp add: decimal_17_to_20_def)
  have f: "members_fetch_all sample_platform (calls ?w) (g_id sample_guild) = Inr ()"
    by (simp add: sample_platform_def)
  have nb: "name_of_member_is sample_platform ''BOB'' bob"
    by (simp add: name_of_member_is_def bob_def toLowerCase_samples)
  have na: "\<not> name_of_member_is sample_platform ''BOB'' alice"
    by (simp add: name_of_member_is_def alice_def toLowerCase_samples)
  have ro: "?roster = [alice, bob]" by (simp add: sample_platform_def)
  have i: "1 < length ?roster \<and> name_of_member_is sample_platform ''BOB'' (?roster ! 1) \<and>
           (\<forall>j<1. \<not> name_of_member_is sample_platform ''BOB'' (?roster ! j))"
    using nb na by (simp add: ro)
  note t1 = resolvers_follow_identifier_shape [of "''200000000000000002''" sample_platform sample_guild ?w]
  note t2 = resolvers_follow_identifier_shape [of "''BOB''" sample_platform sample_guild ?w]
  from t1 d1 have
    "resolveMember sample_platform sample_guild ''200000000000000002'' ?w
       = (members_fetch sample_platform (calls ?w) (g_id sample_guild) ''200000000000000002'',
          ?w\<lparr>calls := calls ?w @ [MembersFetch (g_id sample_guild) ''200000000000000002'']\<rparr>)"
    by blast
  then have r1: "resolveMember sample_platform sample_guild ''200000000000000002'' ?w
     = (Inr bob, ?w\<lparr>calls := [MembersFetch ''123456789012345678'' ''200000000000000002'']\<rparr>)"
    by (simp add: sample_platform_def sample_guild_def sample_world_def alice_def bob_def)
  from t2 d2 have s2: "snd (resolveMember sample_platform sample_guild ''BOB'' ?w)
       = ?w\<lparr>calls := calls ?w @ [MembersFetchAll (g_id sample_guild)]\<rparr>"
    by blast
  from t2 d2 f have
    "\<forall>i. i < length ?roster \<and> name_of_member_is sample_platform ''BOB'' (?roster ! i) \<and>
               (\<forall>j<i. \<not> name_of_member_is sample_platform ''BOB'' (?roster ! j)) \<longrightarrow>
               fst (resolveMember sample_platform sample_guild ''BOB'' ?w) = Inr (?roster ! i)"
    by blast
  with i have "fst (resolveMember sample_platform sample_guild ''BOB'' ?w) = Inr (?roster ! 1)"
    by blast
  then have f2: "fst (resolveMember sample_platform sample_guild ''BOB'' ?w) = Inr bob"
    by (simp add: ro)
  from s2 have s2': "snd (resolveMember sample_platform sample_guild ''BOB'' ?w)
       = ?w\<lparr>calls := [MembersFetchAll ''123456789012345678'']\<rparr>"
    by (simp add: sample_world_def sample_guild_def)
  from f2 s2' have r2: "resolveMember sample_platform sample_guild ''BOB'' ?w
     = (Inr bob, ?w\<lparr>calls := [MembersFetchAll ''123456789012345678'']\<rparr>)"
    by (metis prod.collapse)
  from d1 r1 d2 f nb na r2 show ?thesis by blast
qed

section \<open>Outcomes of a batch\<close>

text \<open>
  Three runs on the sample platform. The callbacks of \<^verbatim>\<open>mass_send_message\<close> for the
  cached channels c1 and c3 send their messages once all the callbacks are started, in
  the order of the items; the callback for the unknown channel zz has sent its fetch by
  then, and asks for the active threads when the answer is in.
\<close>

lemma sample_mass_channels:
  "handleTool sample_platform sample_other_cases ''mass_channels''
      (sample_args\<lparr>guild_id := Some ''123456789012345678'', channels := sample_channels\<rparr>)
      (sample_world Missing)
     = (Inr (Array [Object [(''name'', str ''a''), (''id'', str ''new-a''), (''status'', str ''created'')],
                    Object [(''name'', str ''b''), (''status'', str ''failed''),
                            (''error'', str ''Missing Permissions'')],
                    Object [(''name'', str ''c''), (''id'', str ''new-c''), (''status'', str ''created'')]]),
        (sample_world Missing)\<lparr>calls :=
           map (\<lambda>n. ChannelsCreate ''123456789012345678''
                       \<lparr>co_name = n, co_type = GuildText, co_parent = None, co_topic = None,
                          co_userLimit = None\<rparr>) [''a'', ''b'', ''c'']\<rparr>)"
  by code_simp

lemma sample_mass_send_message:
  "handleTool sample_platform sample_other_cases ''mass_send_message''
      (sample_args\<lparr>guild_id := Some ''123456789012345678'',
         messages := [\<lparr>mi_channel_id = ''c1'', mi_content = ''x''\<rparr>,
                      \<lparr>mi_channel_id = ''zz'', mi_content = ''y''\<rparr>,
                      \<lparr>mi_channel_id = ''c2'', mi_content = ''v''\<rparr>,
                      \<lparr>mi_channel_id = ''c3'', mi_content = ''z''\<rparr>]\<rparr>)
      (sample_world Missing)
     = (Inr (Array [Object [(''channel_id'', str ''c1''), (''message_id'', str ''m3''),
                            (''status'', str ''sent'')],
                    Object [(''channel_id'', str ''zz''), (''status'', str ''failed''),
                            (''error'', str ''Channel/thread zz not found'')],
                    Object [(''channel_id'', str ''c2''), (''status'', str ''failed''),
                            (''error'', str ''Channel c2 is not text-based'')],
                    Object [(''channel_id'', str ''c3''), (''message_id'', str ''m3''),
                            (''status'', str ''sent'')]]),
        (sample_world Missing)\<lparr>calls :=
           [ChannelsFetch ''zz'', ChannelSend ''c1'' ''x'', ChannelSend ''c3'' ''z'',
            FetchActiveThreads ''123456789012345678'']\<rparr>)"
  by code_simp

lemma sample_mass_time_out:
  "handleTool sample_platform sample_other_cases ''mass_time_out''
      (sample_args\<lparr>guild_id := Some ''123456789012345678'',
         user_ids := [''200000000000000001'', ''BOB'', ''nobody'']\<rparr>)
      (sample_world Missing)
     = (Inr (Array [Object [(''user_id'', str ''200000000000000001''), (''username'', str ''alice''),
                            (''status'', str ''timed_out''), (''until'', DateVal 1700000600625)],
                    Object [(''user_id'', str ''BOB''), (''status'', str ''failed''),
                            (''error'', str ''Missing Permissions'')],
                    Object [(''user_id'', str ''nobody''), (''status'', str ''failed''),
                            (''error'', str (''User '' @ [CHR 0x22] @ ''nobody'' @ [CHR 0x22]
                                             @ '' not found in this server''))]]),
        (sample_world Missing)\<lparr>calls :=
           [MembersFetch ''123456789012345678'' ''200000000000000001'',
            MembersFetchAll ''123456789012345678'', MembersFetchAll ''123456789012345678'',
            MemberTimeout ''123456789012345678'' ''200000000000000002'' 600000 ''Mass timeout'',
            MemberTimeout ''123456789012345678'' ''200000000000000001'' 600000 ''Mass timeout'']\<rparr>)"
  by code_simp






















































end
